theory Spec2Isabelle
  imports Complex_Main "HOL-Library.Char_ord" "HOL-Library.List_Lexorder" "HOL-Library.Product_Lexorder"
    "HOL-Library.Word"
begin

section \<open>Python strings and column-name normalization\<close>

text \<open>
  A Python \<open>str\<close> is modelled by the list of its code points, as a \<open>string\<close>; the model
  covers the code points below 256. \<open>str.strip()\<close> with no argument removes leading and
  trailing whitespace, that is the characters for which \<open>str.isspace\<close> holds: below 256
  these are U+0009..U+000D, U+001C..U+0020, U+0085 and U+00A0.
\<close>

definition isspace :: "char \<Rightarrow> bool" where
  "isspace c =
     (let n = (of_char c :: nat)
      in (9 \<le> n \<and> n \<le> 13) \<or> (28 \<le> n \<and> n \<le> 32) \<or> n = 133 \<or> n = 160)"

definition lstrip :: "string \<Rightarrow> string" where
  "lstrip s = dropWhile isspace s"

definition rstrip :: "string \<Rightarrow> string" where
  "rstrip s = rev (dropWhile isspace (rev s))"

definition strip :: "string \<Rightarrow> string" where
  "strip s = rstrip (lstrip s)"

text \<open>
  \<open>s.replace(old, new)\<close> where \<open>old\<close> is a single character, which is the only way the
  scripts call it: every occurrence of the character is replaced by the string \<open>new\<close>.
\<close>

definition replace :: "char \<Rightarrow> string \<Rightarrow> string \<Rightarrow> string" where
  "replace old new s = concat (map (\<lambda>c. if c = old then new else [c]) s)"

text \<open>
  \<^verbatim>\<open>col.strip().replace(" ", "_").replace("?", "").replace(",", "")
      .replace("(", "").replace(")", "").replace("/", "_")\<close>
  (data_analytics.py line 12, data_analytics2.py line 19, data_analytics3.py line 22).
\<close>

definition normalize_column :: "string \<Rightarrow> string" where
  "normalize_column col =
     replace (CHR ''/'') ''_''
       (replace (CHR '')'') ''''
         (replace (CHR ''('') ''''
           (replace (CHR '','') ''''
             (replace (CHR ''?'') ''''
               (replace (CHR '' '') ''_'' (strip col))))))"

text \<open>
  \<^verbatim>\<open>c.strip().replace(" ", "_").replace("?", "").replace(",", "").replace("/", "_")\<close>
  (analytics5/data_analytics5.py line 22): the parentheses are kept.
\<close>

definition normalize_column5 :: "string \<Rightarrow> string" where
  "normalize_column5 c =
     replace (CHR ''/'') ''_''
       (replace (CHR '','') ''''
         (replace (CHR ''?'') ''''
           (replace (CHR '' '') ''_'' (strip c))))"

text \<open>A name begins or ends with a whitespace character.\<close>

definition edge_space :: "string \<Rightarrow> bool" where
  "edge_space s = (s \<noteq> [] \<and> (isspace (hd s) \<or> isspace (last s)))"

section \<open>Tables, errors and the file system\<close>

text \<open>
  A cell of a table is missing (\<open>NaN\<close> in pandas, \<open>NULL\<close> in SQLite), a text or a whole
  number. Survey answers are texts; the counts of the summary tables are numbers.
\<close>

datatype cell = Null | Text string | Number int

text \<open>
  A header cell as \<open>pd.read_excel\<close> returns it: a Python \<open>str\<close> when the spreadsheet
  cell holds text, and the number itself (an \<open>int\<close>, not a \<open>str\<close>) when it holds a number.
\<close>

datatype label = Name string | Numeric int

record raw_table =
  labels :: "label list"
  raw_rows :: "cell list list"

text \<open>The table after the column names have been normalized: every column name is a string.\<close>

record dataframe =
  columns :: "string list"
  rows :: "cell list list"

datatype error =
    FileNotFoundError
  | AttributeError
  | KeyError string
  | IndexError
  | ValueError
  | TypeError
  | DatabaseError

type_synonym byte = "8 word"
type_synonym path = string

text \<open>
  The world the scripts run in: the files on disk (a file is its bytes) and the tables of the
  SQLite database \<open>harassment_survey.db\<close>.
\<close>

record world =
  files :: "path \<rightharpoonup> byte list"
  db :: "string \<rightharpoonup> dataframe"

subsection \<open>Loader\<close>

text \<open>
  \<open>df = pd.read_excel(file_path)\<close> is a call into the library: what it gives for a path,
  the table of the sheet or the exception it raises, is not computed by the scripts. The
  Loader is therefore modelled from the outcome of the call on: \<open>Inr\<close> of the table read
  or \<open>Inl\<close> of the exception raised, which ends the script, since no \<open>try\<close> catches it.
\<close>

text \<open>
  The list comprehension \<open>[col.strip().replace(...)... for col in df.columns]\<close>: the method
  \<open>strip\<close> exists on a \<open>str\<close> only, so a label that is a number raises
  \<open>AttributeError\<close> and the comprehension stops there.
\<close>

fun clean_columns :: "(string \<Rightarrow> string) \<Rightarrow> label list \<Rightarrow> error + string list" where
  "clean_columns f [] = Inr []"
| "clean_columns f (Numeric n # ls) = Inl AttributeError"
| "clean_columns f (Name s # ls) =
     (case clean_columns f ls of Inl e \<Rightarrow> Inl e | Inr cs \<Rightarrow> Inr (f s # cs))"

text \<open>
  Lines 9 to 12 of data_analytics.py (and the same lines of data_analytics2.py and
  data_analytics3.py): the table is read, then the normalized names are assigned to
  \<open>df.columns\<close>. The argument is the outcome of \<open>pd.read_excel(file_path)\<close>.
\<close>

definition load_data :: "error + raw_table \<Rightarrow> error + dataframe" where
  "load_data read_excel =
     (case read_excel of
        Inl e \<Rightarrow> Inl e
      | Inr t \<Rightarrow>
          (case clean_columns normalize_column (labels t) of
             Inl e \<Rightarrow> Inl e
           | Inr cs \<Rightarrow> Inr \<lparr>columns = cs, rows = raw_rows t\<rparr>))"

text \<open>Lines 21 and 22 of analytics5/data_analytics5.py: the same with its own normalization.\<close>

definition load_data5 :: "error + raw_table \<Rightarrow> error + dataframe" where
  "load_data5 read_excel =
     (case read_excel of
        Inl e \<Rightarrow> Inl e
      | Inr t \<Rightarrow>
          (case clean_columns normalize_column5 (labels t) of
             Inl e \<Rightarrow> Inl e
           | Inr cs \<Rightarrow> Inr \<lparr>columns = cs, rows = raw_rows t\<rparr>))"

definition is_name :: "label \<Rightarrow> bool" where
  "is_name l = (case l of Name s \<Rightarrow> True | Numeric n \<Rightarrow> False)"

definition name_of :: "label \<Rightarrow> string" where
  "name_of l = (case l of Name s \<Rightarrow> s | Numeric n \<Rightarrow> [])"

text \<open>
  The table that \<open>pd.read_excel\<close> returns for a sheet whose header row holds the text
  \<open>Gender\<close> and the number 2024 (a year as the title of a column), with one row of answers.
\<close>

definition numeric_header_table :: raw_table where
  "numeric_header_table =
     \<lparr>labels = [Name ''Gender'', Numeric 2024], raw_rows = [[Text ''F'', Text ''Yes'']]\<rparr>"

section \<open>The embedded copy of the dataset\<close>

text \<open>Position of the first occurrence of an element in a list.\<close>

fun index_of :: "'a \<Rightarrow> 'a list \<Rightarrow> nat option" where
  "index_of x [] = None"
| "index_of x (y # ys) = (if x = y then Some 0 else map_option Suc (index_of x ys))"

text \<open>
  \<open>base64.b64encode\<close> and \<open>base64.b64decode\<close> of the Python standard library, after
  RFC 4648: three bytes become four characters of the alphabet, and a last group of one or
  two bytes is padded with \<open>=\<close>. The decoder is the strict one: a text that is not made of
  groups of four characters of the alphabet, padded at the end only, raises
  \<open>binascii.Error\<close>, a \<open>ValueError\<close>.
\<close>

definition b64_alphabet :: string where
  "b64_alphabet = ''ABCDEFGHIJKLMNOPQRSTUVWXYZabcdefghijklmnopqrstuvwxyz0123456789+/''"

definition b64_char :: "nat \<Rightarrow> char" where
  "b64_char i = b64_alphabet ! i"

fun b64encode :: "byte list \<Rightarrow> string" where
  "b64encode [] = []"
| "b64encode [a] =
     (let n = unat a * 16
      in [b64_char (n div 64), b64_char (n mod 64), CHR ''='', CHR ''=''])"
| "b64encode [a, b] =
     (let n = (unat a * 256 + unat b) * 4
      in [b64_char (n div 4096), b64_char (n div 64 mod 64), b64_char (n mod 64), CHR ''=''])"
| "b64encode (a # b # c # bs) =
     (let n = unat a * 65536 + unat b * 256 + unat c
      in [b64_char (n div 262144), b64_char (n div 4096 mod 64),
          b64_char (n div 64 mod 64), b64_char (n mod 64)] @ b64encode bs)"

definition b64_index :: "char \<Rightarrow> nat option" where
  "b64_index c = index_of c b64_alphabet"

fun b64decode :: "string \<Rightarrow> error + byte list" where
  "b64decode [] = Inr []"
| "b64decode (c0 # c1 # c2 # c3 # cs) =
     (if cs = [] \<and> c3 = CHR ''='' then
        (if c2 = CHR ''='' then
           (case (b64_index c0, b64_index c1) of
              (Some i0, Some i1) \<Rightarrow> Inr [of_nat ((i0 * 64 + i1) div 16)]
            | _ \<Rightarrow> Inl ValueError)
         else
           (case (b64_index c0, b64_index c1, b64_index c2) of
              (Some i0, Some i1, Some i2) \<Rightarrow>
                (let n = ((i0 * 64 + i1) * 64 + i2) div 4
                 in Inr [of_nat (n div 256), of_nat (n mod 256)])
            | _ \<Rightarrow> Inl ValueError))
      else
        (case (b64_index c0, b64_index c1, b64_index c2, b64_index c3) of
           (Some i0, Some i1, Some i2, Some i3) \<Rightarrow>
             (let n = ((i0 * 64 + i1) * 64 + i2) * 64 + i3
              in (case b64decode cs of
                    Inl e \<Rightarrow> Inl e
                  | Inr bs \<Rightarrow> Inr (of_nat (n div 65536) # of_nat (n div 256 mod 256) # of_nat (n mod 256) # bs)))
         | _ \<Rightarrow> Inl ValueError))"
| "b64decode _ = Inl ValueError"



text \<open>
  \<open>df.to_excel(EMBED_XLSX, index=False)\<close> writes the bytes that the library's spreadsheet
  writer produces for the table; the writer is the parameter \<open>write\<close>. An existing file at
  the path is overwritten.
\<close>

definition to_excel ::
  "(dataframe \<Rightarrow> byte list) \<Rightarrow> dataframe \<Rightarrow> path \<Rightarrow> (path \<rightharpoonup> byte list) \<Rightarrow> (path \<rightharpoonup> byte list)" where
  "to_excel write df p fs = fs(p \<mapsto> write df)"

text \<open>\<open>open(p, "rb").read()\<close>.\<close>

definition read_bytes :: "(path \<rightharpoonup> byte list) \<Rightarrow> path \<Rightarrow> error + byte list" where
  "read_bytes fs p = (case fs p of None \<Rightarrow> Inl FileNotFoundError | Some bs \<Rightarrow> Inr bs)"

definition EMBED_XLSX :: path where
  "EMBED_XLSX = ''survey_data.xlsx''"

text \<open>
  Lines 23 to 27 of analytics5/data_analytics5.py and lines 25 to 29 of data_analytics3.py:
  the table with its normalized column names is written to \<open>survey_data.xlsx\<close>, the file is
  read back and its bytes are encoded. The result is the new file system and
  \<open>encoded_excel\<close>; decoding the base64 bytes to a \<open>str\<close> changes no character.
\<close>

definition embed_dataset ::
  "(dataframe \<Rightarrow> byte list) \<Rightarrow> dataframe \<Rightarrow> (path \<rightharpoonup> byte list)
     \<Rightarrow> error + ((path \<rightharpoonup> byte list) \<times> string)" where
  "embed_dataset write df fs =
     (let fs' = to_excel write df EMBED_XLSX fs
      in case read_bytes fs' EMBED_XLSX of
           Inl e \<Rightarrow> Inl e
         | Inr bs \<Rightarrow> Inr (fs', b64encode bs))"

text \<open>
  The target of the download link of the report,
  \<^verbatim>\<open>href="data:application/vnd.openxmlformats-officedocument.spreadsheetml.sheet;base64,{encoded_excel}"\<close>:
  the encoded text follows the fixed prefix unchanged (an f-string in data_analytics5.py, a
  Jinja2 template without autoescaping in data_analytics3.py).
\<close>

definition data_uri_prefix :: string where
  "data_uri_prefix =
     ''data:application/vnd.openxmlformats-officedocument.spreadsheetml.sheet;base64,''"

definition data_uri :: "string \<Rightarrow> string" where
  "data_uri encoded_excel = data_uri_prefix @ encoded_excel"

text \<open>The blob of a data URI: what follows the prefix.\<close>

definition embedded_blob :: "string \<Rightarrow> string" where
  "embedded_blob uri = drop (length data_uri_prefix) uri"

section \<open>Persister\<close>

text \<open>
  The SQLite database is modelled by its tables. SQLite compares identifiers without regard
  to the case of the ASCII letters.
\<close>

definition lower :: "char \<Rightarrow> char" where
  "lower c =
     (let n = (of_char c :: nat) in if 65 \<le> n \<and> n \<le> 90 then char_of (n + 32) else c)"

definition sql_name :: "string \<Rightarrow> string" where
  "sql_name s = map lower s"

definition drop_table :: "string \<Rightarrow> (string \<rightharpoonup> dataframe) \<Rightarrow> (string \<rightharpoonup> dataframe)" where
  "drop_table name conn = conn(name := None)"

text \<open>
  \<open>CREATE TABLE\<close> as pandas issues it: pandas refuses an empty column name and one that
  holds a NUL character with a \<open>ValueError\<close> while it builds the statement; SQLite refuses
  an existing table and two columns of the same name.
\<close>

definition create_table ::
  "string \<Rightarrow> string list \<Rightarrow> (string \<rightharpoonup> dataframe) \<Rightarrow> error + (string \<rightharpoonup> dataframe)" where
  "create_table name cols conn =
     (if list_ex (\<lambda>c. c = [] \<or> CHR 0x00 \<in> set c) cols then Inl ValueError
      else if conn name \<noteq> None then Inl DatabaseError
      else if \<not> distinct (map sql_name cols) then Inl DatabaseError
      else Inr (conn(name \<mapsto> \<lparr>columns = cols, rows = []\<rparr>)))"

text \<open>\<open>INSERT INTO\<close>: the rows are added after the rows the table holds.\<close>

definition insert_rows ::
  "string \<Rightarrow> cell list list \<Rightarrow> (string \<rightharpoonup> dataframe) \<Rightarrow> error + (string \<rightharpoonup> dataframe)" where
  "insert_rows name rs conn =
     (case conn name of
        None \<Rightarrow> Inl DatabaseError
      | Some t \<Rightarrow> Inr (conn(name \<mapsto> t\<lparr>rows := rows t @ rs\<rparr>)))"

text \<open>
  \<open>df.to_sql(name, conn, if_exists="replace", index=False)\<close>: an existing table of that
  name is dropped, the table is created from the columns of the frame (no index column) and
  the rows of the frame are inserted.
\<close>

definition to_sql ::
  "dataframe \<Rightarrow> string \<Rightarrow> (string \<rightharpoonup> dataframe) \<Rightarrow> error + (string \<rightharpoonup> dataframe)" where
  "to_sql df name conn =
     (let conn1 = (if conn name \<noteq> None then drop_table name conn else conn)
      in case create_table name (columns df) conn1 of
           Inl e \<Rightarrow> Inl e
         | Inr conn2 \<Rightarrow> insert_rows name (rows df) conn2)"

section \<open>Aggregator\<close>

text \<open>
  The cell of a row in a column. Tables are rectangular, so the position always exists in a
  row of a table; a row that is too short reads as missing.
\<close>

definition cell_at :: "cell list \<Rightarrow> nat \<Rightarrow> cell" where
  "cell_at r i = (if i < length r then r ! i else Null)"

text \<open>
  The order of the group keys: SQLite puts \<open>NULL\<close> first, then the numbers, then the texts
  in the order of their code points; pandas sorts a column of numbers and texts the same
  way.
\<close>

definition cell_rank :: "cell \<Rightarrow> nat \<times> int \<times> string" where
  "cell_rank c = (case c of Null \<Rightarrow> (0, 0, []) | Number n \<Rightarrow> (1, n, []) | Text s \<Rightarrow> (2, 0, s))"

definition key_rank :: "cell list \<Rightarrow> (nat \<times> int \<times> string) list" where
  "key_rank k = map cell_rank k"

text \<open>
  The groups of a list of keys with their sizes, in the order of the keys: one row per
  distinct key, the key cells first and the number of its occurrences last.
\<close>

definition count_groups :: "cell list list \<Rightarrow> cell list list" where
  "count_groups ks =
     map (\<lambda>k. k @ [Number (int (count_list ks k))]) (sort_key key_rank (remdups ks))"

subsection \<open>The SQL variants\<close>

definition sql_column_index :: "string list \<Rightarrow> string \<Rightarrow> nat option" where
  "sql_column_index cols name = index_of (sql_name name) (map sql_name cols)"

fun sql_column_indices :: "string list \<Rightarrow> string list \<Rightarrow> nat list option" where
  "sql_column_indices cols [] = Some []"
| "sql_column_indices cols (n # ns) =
     (case sql_column_index cols n of
        None \<Rightarrow> None
      | Some i \<Rightarrow> (case sql_column_indices cols ns of None \<Rightarrow> None | Some js \<Rightarrow> Some (i # js)))"

text \<open>
  \<^verbatim>\<open>pd.read_sql_query("SELECT c1 AS a1, ..., COUNT(*) AS Count FROM t GROUP BY a1, ...", conn)\<close>
  for the list \<open>sel\<close> of the pairs (column, alias). A missing table or column makes pandas
  raise \<open>DatabaseError\<close>. \<open>GROUP BY\<close> keeps \<open>NULL\<close> as a group of its own, and SQLite
  returns the groups in the order of their keys. The model takes the aliases to name the
  selected columns (the table has no column called like an alias).
\<close>

definition read_sql_query ::
  "(string \<rightharpoonup> dataframe) \<Rightarrow> string \<Rightarrow> (string \<times> string) list \<Rightarrow> error + dataframe" where
  "read_sql_query conn t sel =
     (case conn t of
        None \<Rightarrow> Inl DatabaseError
      | Some tbl \<Rightarrow>
          (case sql_column_indices (columns tbl) (map fst sel) of
             None \<Rightarrow> Inl DatabaseError
           | Some js \<Rightarrow>
               Inr \<lparr>columns = map snd sel @ [''Count''],
                    rows = count_groups (map (\<lambda>r. map (cell_at r) js) (rows tbl))\<rparr>))"

definition AWARE :: string where
  "AWARE = ''Are_you_aware_of_what_constitutes_workplace_harassment''"

definition KNOW :: string where
  "KNOW = ''Do_you_know_whom_to_report_workplace_harassment_incidents_to''"

definition TRAINING :: string where
  "TRAINING = ''Have_you_ever_received_any_formal_training_on_workplace_harassment_policies''"

definition GENDER :: string where
  "GENDER = ''What_is_your_Gender''"

record summaries =
  awareness_df :: dataframe
  awareness_reporting_df :: dataframe
  training_reporting_df :: dataframe
  gender_awareness_df :: dataframe

text \<open>
  The four queries of data_analytics.py (lines 21 to 55) and data_analytics2.py, with
  \<open>know_alias = Know_Whom_To_Report\<close>, and of data_analytics3.py, with
  \<open>know_alias = Know_Whom\<close>. The first query that fails ends the script.
\<close>

definition aggregate_sql :: "string \<Rightarrow> (string \<rightharpoonup> dataframe) \<Rightarrow> error + summaries" where
  "aggregate_sql know_alias conn =
     (case read_sql_query conn ''survey'' [(AWARE, ''Awareness'')] of
        Inl e \<Rightarrow> Inl e
      | Inr a \<Rightarrow>
     (case read_sql_query conn ''survey'' [(AWARE, ''Awareness''), (KNOW, know_alias)] of
        Inl e \<Rightarrow> Inl e
      | Inr ar \<Rightarrow>
     (case read_sql_query conn ''survey'' [(TRAINING, ''Training''), (KNOW, know_alias)] of
        Inl e \<Rightarrow> Inl e
      | Inr tr \<Rightarrow>
     (case read_sql_query conn ''survey'' [(GENDER, ''Gender''), (AWARE, ''Awareness'')] of
        Inl e \<Rightarrow> Inl e
      | Inr ga \<Rightarrow>
          Inr \<lparr>awareness_df = a, awareness_reporting_df = ar,
               training_reporting_df = tr, gender_awareness_df = ga\<rparr>))))"

subsection \<open>The pandas variant\<close>

text \<open>\<open>df[name]\<close>: the column of that name, or \<open>KeyError\<close>.\<close>

definition get_column :: "dataframe \<Rightarrow> string \<Rightarrow> error + cell list" where
  "get_column df name =
     (case index_of name (columns df) of
        None \<Rightarrow> Inl (KeyError name)
      | Some i \<Rightarrow> Inr (map (\<lambda>r. cell_at r i) (rows df)))"

text \<open>
  \<open>Series.value_counts()\<close>: the missing values are dropped; the distinct values are listed
  with the number of their occurrences, the most frequent first, values of the same
  frequency in the order of their first occurrence.
\<close>

definition value_counts :: "cell list \<Rightarrow> (cell \<times> nat) list" where
  "value_counts xs =
     (let vs = filter (\<lambda>x. x \<noteq> Null) xs
      in sort_key (\<lambda>p. - int (snd p)) (map (\<lambda>v. (v, count_list vs v)) (rev (remdups (rev vs)))))"

text \<open>
  \<open>.reset_index()\<close> on the result of \<open>value_counts\<close>: a frame of two columns, the values
  first and their counts second.
\<close>

definition reset_index :: "string \<Rightarrow> (cell \<times> nat) list \<Rightarrow> dataframe" where
  "reset_index name vc =
     \<lparr>columns = [name, ''count''], rows = map (\<lambda>p. [fst p, Number (int (snd p))]) vc\<rparr>"

text \<open>\<open>df.columns = names\<close>: a \<open>ValueError\<close> when the number of names is not the number of columns.\<close>

definition set_columns :: "dataframe \<Rightarrow> string list \<Rightarrow> error + dataframe" where
  "set_columns df names =
     (if length names = length (columns df) then Inr (df\<lparr>columns := names\<rparr>) else Inl ValueError)"

fun column_indices :: "string list \<Rightarrow> string list \<Rightarrow> error + nat list" where
  "column_indices cols [] = Inr []"
| "column_indices cols (n # ns) =
     (case index_of n cols of
        None \<Rightarrow> Inl (KeyError n)
      | Some i \<Rightarrow> (case column_indices cols ns of Inl e \<Rightarrow> Inl e | Inr js \<Rightarrow> Inr (i # js)))"

text \<open>
  \<open>df.groupby(keys).size().reset_index(name=name)\<close>: the rows with a missing value in a
  key column are dropped (\<open>dropna=True\<close> is the default of \<open>groupby\<close>), the groups come in
  the order of their keys, and the frame has the key columns first and the sizes last.
\<close>

definition groupby_size :: "dataframe \<Rightarrow> string list \<Rightarrow> string \<Rightarrow> error + dataframe" where
  "groupby_size df keys name =
     (case column_indices (columns df) keys of
        Inl e \<Rightarrow> Inl e
      | Inr js \<Rightarrow>
          Inr \<lparr>columns = keys @ [name],
               rows = count_groups
                        (filter (\<lambda>k. Null \<notin> set k) (map (\<lambda>r. map (cell_at r) js) (rows df)))\<rparr>)"

text \<open>\<open>df.dropna(subset=names)\<close>: the rows with a missing value in one of the named columns go.\<close>

definition dropna :: "dataframe \<Rightarrow> string list \<Rightarrow> error + dataframe" where
  "dropna df names =
     (case column_indices (columns df) names of
        Inl e \<Rightarrow> Inl e
      | Inr js \<Rightarrow> Inr (df\<lparr>rows := filter (\<lambda>r. Null \<notin> set (map (cell_at r) js)) (rows df)\<rparr>))"

subsection \<open>The association test\<close>

text \<open>
  \<open>pd.crosstab(a, b)\<close>: the pairs with a missing value are dropped; the row labels are the
  distinct values of \<open>a\<close> and the column labels those of \<open>b\<close>, both sorted, and a cell
  counts the pairs with its labels.
\<close>

record contingency =
  index_labels :: "cell list"
  column_labels :: "cell list"
  counts :: "nat list list"

definition crosstab :: "cell list \<Rightarrow> cell list \<Rightarrow> contingency" where
  "crosstab a b =
     (let ps = filter (\<lambda>p. fst p \<noteq> Null \<and> snd p \<noteq> Null) (zip a b);
          idx = sort_key cell_rank (remdups (map fst ps));
          cls = sort_key cell_rank (remdups (map snd ps))
      in \<lparr>index_labels = idx, column_labels = cls,
          counts = map (\<lambda>i. map (\<lambda>j. count_list ps (i, j)) cls) idx\<rparr>)"

text \<open>\<open>DataFrame.empty\<close>: an axis of the frame has length 0.\<close>

definition empty :: "contingency \<Rightarrow> bool" where
  "empty c = (index_labels c = [] \<or> column_labels c = [])"

text \<open>
  The result of \<open>scipy.stats.chi2_contingency\<close>. The statistic and the p-value are floating
  point numbers that the library computes from the observed table; they are kept as the
  table they are computed from. With no degree of freedom the library returns the fixed
  values 0.0 for the statistic and 1.0 for the p-value.
\<close>

datatype chi2_result =
    Degenerate
  | Pearson "nat list list" nat

text \<open>
  \<open>chi2_contingency(observed)\<close>: a \<open>ValueError\<close> for a table of size 0 and for a table with
  an expected frequency of zero (a row or a column whose sum is zero); the degrees of
  freedom of an r by c table are (r - 1)(c - 1).
\<close>

definition chi2_contingency :: "nat list list \<Rightarrow> error + chi2_result" where
  "chi2_contingency obs =
     (case obs of
        [] \<Rightarrow> Inl ValueError
      | row # _ \<Rightarrow>
          if row = [] then Inl ValueError
          else if list_ex (\<lambda>r. sum_list r = 0) obs
                  \<or> list_ex (\<lambda>j. sum_list (map (\<lambda>r. r ! j) obs) = 0) [0..<length row]
          then Inl ValueError
          else (let dof = (length obs - 1) * (length row - 1)
                in if dof = 0 then Inr Degenerate else Inr (Pearson obs dof)))"

text \<open>
  The first component of the result of \<open>chi_square_test\<close>: the sentence without a number,
  or the sentence that reports the statistic, the p-value and the degrees of freedom. Both
  name the two columns.
\<close>

datatype message =
    No_data_available string string
  | Chi_square string string chi2_result

text \<open>
  \<open>chi_square_test(df, col1, col2)\<close> (analytics5/data_analytics5.py, lines 43 to 51). The
  second component is \<open>None\<close> or the p-value.
\<close>

definition chi_square_test ::
  "dataframe \<Rightarrow> string \<Rightarrow> string \<Rightarrow> error + (message \<times> chi2_result option)" where
  "chi_square_test df col1 col2 =
     (case get_column df col1 of
        Inl e \<Rightarrow> Inl e
      | Inr a \<Rightarrow>
     (case get_column df col2 of
        Inl e \<Rightarrow> Inl e
      | Inr b \<Rightarrow>
          (let contingency = crosstab a b
           in if empty contingency then Inr (No_data_available col1 col2, None)
              else (case chi2_contingency (counts contingency) of
                      Inl e \<Rightarrow> Inl e
                    | Inr res \<Rightarrow> Inr (Chi_square col1 col2 res, Some res)))))"

text \<open>
  The analysis of analytics5/data_analytics5.py, lines 54 to 85, in the order of the script:
  the four summary tables and the three tests. The charts are written from the tables and
  change none of them.
\<close>

record analysis =
  tables :: summaries
  chi_awareness_reporting :: "message \<times> chi2_result option"
  chi_training_reporting :: "message \<times> chi2_result option"
  chi_gender_awareness :: "message \<times> chi2_result option"

definition awareness5 :: "dataframe \<Rightarrow> error + dataframe" where
  "awareness5 df =
     (case get_column df AWARE of
        Inl e \<Rightarrow> Inl e
      | Inr xs \<Rightarrow> set_columns (reset_index AWARE (value_counts xs)) [''Awareness'', ''Count''])"

definition grouped5 :: "dataframe \<Rightarrow> string list \<Rightarrow> string list \<Rightarrow> error + dataframe" where
  "grouped5 df keys names =
     (case groupby_size df keys ''Count'' of
        Inl e \<Rightarrow> Inl e
      | Inr g \<Rightarrow> set_columns g names)"

definition training_reporting5 :: "dataframe \<Rightarrow> error + dataframe" where
  "training_reporting5 df =
     (case grouped5 df [TRAINING, KNOW] [''Training'', ''Know_Whom'', ''Count''] of
        Inl e \<Rightarrow> Inl e
      | Inr g \<Rightarrow> dropna g [''Training'', ''Know_Whom''])"

definition analysis5 :: "dataframe \<Rightarrow> error + analysis" where
  "analysis5 df =
     (case awareness5 df of
        Inl e \<Rightarrow> Inl e
      | Inr a \<Rightarrow>
     (case grouped5 df [AWARE, KNOW] [''Awareness'', ''Know_Whom'', ''Count''] of
        Inl e \<Rightarrow> Inl e
      | Inr ar \<Rightarrow>
     (case chi_square_test df AWARE KNOW of
        Inl e \<Rightarrow> Inl e
      | Inr c1 \<Rightarrow>
     (case training_reporting5 df of
        Inl e \<Rightarrow> Inl e
      | Inr tr \<Rightarrow>
     (case chi_square_test tr ''Training'' ''Know_Whom'' of
        Inl e \<Rightarrow> Inl e
      | Inr c2 \<Rightarrow>
     (case grouped5 df [GENDER, AWARE] [''Gender'', ''Awareness'', ''Count''] of
        Inl e \<Rightarrow> Inl e
      | Inr ga \<Rightarrow>
     (case chi_square_test df GENDER AWARE of
        Inl e \<Rightarrow> Inl e
      | Inr c3 \<Rightarrow>
          Inr \<lparr>tables = \<lparr>awareness_df = a, awareness_reporting_df = ar,
                          training_reporting_df = tr, gender_awareness_df = ga\<rparr>,
               chi_awareness_reporting = c1, chi_training_reporting = c2,
               chi_gender_awareness = c3\<rparr>)))))))"

section \<open>Report Composer: the awareness percentage\<close>

text \<open>
  \<open>Series.sum()\<close> of a column of counts: missing values are skipped, and a text cannot be
  added to a number.
\<close>

fun series_sum :: "cell list \<Rightarrow> error + int" where
  "series_sum [] = Inr 0"
| "series_sum (Number n # cs) = (case series_sum cs of Inl e \<Rightarrow> Inl e | Inr s \<Rightarrow> Inr (n + s))"
| "series_sum (Null # cs) = series_sum cs"
| "series_sum (Text s # cs) = Inl TypeError"

text \<open>\<open>df[df[name] == value]\<close>: the rows whose cell in the column is equal to the value.\<close>

definition select_eq :: "dataframe \<Rightarrow> string \<Rightarrow> cell \<Rightarrow> error + dataframe" where
  "select_eq df name v =
     (case index_of name (columns df) of
        None \<Rightarrow> Inl (KeyError name)
      | Some i \<Rightarrow> Inr (df\<lparr>rows := filter (\<lambda>r. cell_at r i = v) (rows df)\<rparr>))"

text \<open>\<open>.values[0]\<close>: the first element, or \<open>IndexError\<close> on an empty array.\<close>

definition values0 :: "cell list \<Rightarrow> error + cell" where
  "values0 xs = (case xs of [] \<Rightarrow> Inl IndexError | x # _ \<Rightarrow> Inr x)"

text \<open>
  \<^verbatim>\<open>awareness_df[awareness_df['Awareness'] == 'Yes']['Count'].values[0]\<close>: the count in the
  first row of the summary table whose \<open>Awareness\<close> is the text \<open>Yes\<close>.
\<close>

definition yes_count :: "dataframe \<Rightarrow> error + int" where
  "yes_count a =
     (case select_eq a ''Awareness'' (Text ''Yes'') of
        Inl e \<Rightarrow> Inl e
      | Inr sel \<Rightarrow>
     (case get_column sel ''Count'' of
        Inl e \<Rightarrow> Inl e
      | Inr cnt \<Rightarrow>
     (case values0 cnt of
        Inl e \<Rightarrow> Inl e
      | Inr (Number n) \<Rightarrow> Inr n
      | Inr _ \<Rightarrow> Inl TypeError)))"

text \<open>
  The floating-point number \<open>n / total * 100\<close> of the scripts. Floating-point arithmetic
  is not modelled: the number is kept as the two integers it is computed from, the count
  in the numerator and the total in the denominator, which determine it. (With numpy
  numbers a division by zero does not raise; it gives an infinity or a NaN.)
\<close>

datatype percent = Percent int int

text \<open>
  Lines 102 and 103 of data_analytics.py, lines 85 and 86 of data_analytics2.py and lines
  100 to 102 of data_analytics3.py:
  \<^verbatim>\<open>total = awareness_df['Count'].sum()
  yes_pct = awareness_df[awareness_df['Awareness'] == 'Yes']['Count'].values[0] / total * 100\<close>
\<close>

definition yes_pct :: "dataframe \<Rightarrow> error + percent" where
  "yes_pct a =
     (case get_column a ''Count'' of
        Inl e \<Rightarrow> Inl e
      | Inr cnt \<Rightarrow>
     (case series_sum cnt of
        Inl e \<Rightarrow> Inl e
      | Inr tot \<Rightarrow>
     (case yes_count a of
        Inl e \<Rightarrow> Inl e
      | Inr n \<Rightarrow> Inr (Percent n tot))))"

text \<open>
  The percentage as the scripts put it into the text: \<open>f"{yes_pct:.1f}"\<close> (the sentence of
  data_analytics.py, \<open>awareness_pct\<close> in data_analytics2.py, the summary of
  data_analytics3.py). The formatting of a floating-point number is Python's: it is the
  parameter \<open>fmt\<close>, the text that \<open>:.1f\<close> gives for the number.
\<close>

definition awareness_pct :: "(percent \<Rightarrow> string) \<Rightarrow> dataframe \<Rightarrow> error + string" where
  "awareness_pct fmt a = (case yes_pct a of Inl e \<Rightarrow> Inl e | Inr q \<Rightarrow> Inr (fmt q))"

text \<open>
  The first sentence of the summary of analytics5/data_analytics5.py (line 90): the number
  of respondents \<open>len(df)\<close>, the count of \<open>Yes\<close> and the percentage, whose denominator is
  \<open>len(df)\<close>. The f-string evaluates the selection of the \<open>Yes\<close> row twice.
\<close>

definition summary5 ::
  "(percent \<Rightarrow> string) \<Rightarrow> dataframe \<Rightarrow> dataframe \<Rightarrow> error + (nat \<times> int \<times> string)" where
  "summary5 fmt df a =
     (case yes_count a of
        Inl e \<Rightarrow> Inl e
      | Inr n \<Rightarrow>
     (case yes_count a of
        Inl e \<Rightarrow> Inl e
      | Inr m \<Rightarrow> Inr (length (rows df), n, fmt (Percent m (int (length (rows df)))))))"

text \<open>The decimal digits of a natural number.\<close>

fun str_nat :: "nat \<Rightarrow> string" where
  "str_nat n =
     (if n < 10 then [char_of (48 + n)] else str_nat (n div 10) @ [char_of (48 + n mod 10)])"

text \<open>Rounding to the nearest integer, a tie to the even one.\<close>

definition round_half_even :: "rat \<Rightarrow> int" where
  "round_half_even q =
     (let f = \<lfloor>q\<rfloor>; d = q - of_int f
      in if d < 1 / 2 then f else if 1 / 2 < d then f + 1 else if even f then f else f + 1)"

text \<open>
  A formatter for the examples: the exact value of \<open>n / total * 100\<close> with one digit after
  the point, the nearest such decimal, a tie to the even digit. It is the text of \<open>:.1f\<close>
  wherever the floating-point number is the exact value (as for 60 out of 100); the
  properties below hold for every formatter and do not depend on this one.
\<close>

definition format_1f :: "percent \<Rightarrow> string" where
  "format_1f p =
     (case p of Percent n tot \<Rightarrow>
        if tot = 0 then (if n = 0 then ''nan'' else if 0 < n then ''inf'' else ''-inf'')
        else (let q = (of_int n / of_int tot * 100 :: rat);
                  t = nat (round_half_even (\<bar>q\<bar> * 10))
              in (if q < 0 then ''-'' else []) @ str_nat (t div 10) @ ''.'' @ str_nat (t mod 10)))"

section \<open>The scripts\<close>

text \<open>
  data_analytics.py and data_analytics2.py up to the percentage: Loader, Persister,
  Aggregator, and the percentage of the text. The arguments are the formatter, the outcome
  of \<open>pd.read_excel\<close> and the world before the run; the result is the world after the run,
  the summary tables and the percentage.
\<close>

definition run_sql ::
  "(percent \<Rightarrow> string) \<Rightarrow> error + raw_table \<Rightarrow> world \<Rightarrow> error + (world \<times> summaries \<times> string)" where
  "run_sql fmt read_excel w =
     (case load_data read_excel of
        Inl e \<Rightarrow> Inl e
      | Inr df \<Rightarrow>
     (case to_sql df ''survey'' (db w) of
        Inl e \<Rightarrow> Inl e
      | Inr conn \<Rightarrow>
     (case aggregate_sql ''Know_Whom_To_Report'' conn of
        Inl e \<Rightarrow> Inl e
      | Inr s \<Rightarrow>
     (case awareness_pct fmt (awareness_df s) of
        Inl e \<Rightarrow> Inl e
      | Inr pct \<Rightarrow> Inr (w\<lparr>db := conn\<rparr>, s, pct)))))"

text \<open>
  analytics5/data_analytics5.py up to the summary: Loader with the embedded copy, Persister,
  the analysis on the table in memory, and the first sentence of the summary.
\<close>

definition run5 ::
  "(percent \<Rightarrow> string) \<Rightarrow> (dataframe \<Rightarrow> byte list) \<Rightarrow> error + raw_table \<Rightarrow> world
     \<Rightarrow> error + (world \<times> string \<times> analysis \<times> (nat \<times> int \<times> string))" where
  "run5 fmt write read_excel w =
     (case load_data5 read_excel of
        Inl e \<Rightarrow> Inl e
      | Inr df \<Rightarrow>
     (case embed_dataset write df (files w) of
        Inl e \<Rightarrow> Inl e
      | Inr (fs, encoded_excel) \<Rightarrow>
     (case to_sql df ''survey'' (db w) of
        Inl e \<Rightarrow> Inl e
      | Inr conn \<Rightarrow>
     (case analysis5 df of
        Inl e \<Rightarrow> Inl e
      | Inr an \<Rightarrow>
     (case summary5 fmt df (awareness_df (tables an)) of
        Inl e \<Rightarrow> Inl e
      | Inr s \<Rightarrow> Inr (\<lparr>files = fs, db = conn\<rparr>, encoded_excel, an, s))))))"

text \<open>A survey of five respondents, for the examples.\<close>

definition example_survey :: dataframe where
  "example_survey =
     \<lparr>columns = [AWARE, KNOW, TRAINING, GENDER],
      rows = [[Text ''Yes'', Text ''No'', Null, Text ''F''],
              [Text ''No'', Text ''No'', Text ''Yes'', Text ''M''],
              [Text ''Yes'', Null, Text ''Yes'', Text ''M''],
              [Null, Text ''Yes'', Text ''No'', Text ''F''],
              [Text ''Yes'', Text ''No'', Text ''No'', Text ''F'']]\<rparr>"

text \<open>Column names that \<open>to_sql\<close> accepts: none is empty or holds a NUL, and no two are the
  same for SQLite.\<close>

definition valid_columns :: "string list \<Rightarrow> bool" where
  "valid_columns cols =
     (\<not> list_ex (\<lambda>c. c = [] \<or> CHR 0x00 \<in> set c) cols \<and> distinct (map sql_name cols))"

text \<open>A database that already holds a table \<open>survey\<close> of an earlier run, and another table.\<close>

definition example_db :: "string \<rightharpoonup> dataframe" where
  "example_db =
     [''survey'' \<mapsto> \<lparr>columns = [''Old''], rows = [[Text ''x''], [Text ''y'']]\<rparr>,
      ''notes'' \<mapsto> \<lparr>columns = [''N''], rows = [[Number 1]]\<rparr>]"

section \<open>Notions used to state the properties\<close>

text \<open>\<open>awareness_df['Count'].sum()\<close>, the total of the counts of a summary table.\<close>

definition total_count :: "dataframe \<Rightarrow> error + int" where
  "total_count t = (case get_column t ''Count'' of Inl e \<Rightarrow> Inl e | Inr cnt \<Rightarrow> series_sum cnt)"

definition is_number :: "cell \<Rightarrow> bool" where
  "is_number c = (case c of Number n \<Rightarrow> True | _ \<Rightarrow> False)"

text \<open>
  A summary table with the given key columns: its columns are the keys, in this order, and
  then \<open>Count\<close>; every row has one cell per column, and its last cell is a number.
\<close>

definition keys_then_count :: "string list \<Rightarrow> dataframe \<Rightarrow> bool" where
  "keys_then_count keys t =
     (columns t = keys @ [''Count''] \<and>
      list_all (\<lambda>r. length r = length keys + 1 \<and> is_number (last r)) (rows t))"

text \<open>The summary tables of a run, or the error that ended it.\<close>

definition summary_tables_sql ::
  "(percent \<Rightarrow> string) \<Rightarrow> error + raw_table \<Rightarrow> world \<Rightarrow> error + summaries" where
  "summary_tables_sql fmt read_excel w =
     (case run_sql fmt read_excel w of Inl e \<Rightarrow> Inl e | Inr (w', s, pct) \<Rightarrow> Inr s)"

definition summary_tables5 ::
  "(percent \<Rightarrow> string) \<Rightarrow> (dataframe \<Rightarrow> byte list) \<Rightarrow> error + raw_table \<Rightarrow> world
     \<Rightarrow> error + summaries" where
  "summary_tables5 fmt write read_excel w =
     (case run5 fmt write read_excel w of
        Inl e \<Rightarrow> Inl e
      | Inr (w', enc, an, s) \<Rightarrow> Inr (tables an))"

text \<open>
  A summary table of awareness in which no answer is exactly \<open>Yes\<close>: three respondents
  answered \<open>No\<close> and two \<open>yes\<close>, in lower case.
\<close>

definition no_yes_table :: dataframe where
  "no_yes_table =
     \<lparr>columns = [''Awareness'', ''Count''],
      rows = [[Text ''No'', Number 3], [Text ''yes'', Number 2]]\<rparr>"

text \<open>
  Two tables for the association test. In the first every respondent is aware, so that the
  awareness column has one distinct value; in the second no respondent answered both
  questions.
\<close>

definition all_aware_survey :: dataframe where
  "all_aware_survey =
     \<lparr>columns = [AWARE, KNOW],
      rows = [[Text ''Yes'', Text ''Yes''], [Text ''Yes'', Text ''No''], [Text ''Yes'', Text ''No'']]\<rparr>"

definition no_pairs_survey :: dataframe where
  "no_pairs_survey =
     \<lparr>columns = [AWARE, KNOW], rows = [[Text ''Yes'', Null], [Null, Text ''No'']]\<rparr>"

section \<open>Properties of the column-name normalization\<close>

lemma replace_absent: "old \<notin> set s \<Longrightarrow> replace old new s = s"
  by (induction s) (auto simp: replace_def)

lemma set_replace: "set (replace old new s) \<subseteq> (set s - {old}) \<union> set new"
  by (induction s) (auto simp: replace_def)

lemma strip_no_edge: "\<not> edge_space s \<Longrightarrow> strip s = s"
proof (cases s)
  case Nil
  then show ?thesis by (simp add: strip_def lstrip_def rstrip_def)
next
  case (Cons x xs)
  assume "\<not> edge_space s"
  with Cons have h: "\<not> isspace x" and l: "\<not> isspace (last s)"
    by (simp_all add: edge_space_def)
  from Cons obtain y ys where r: "rev s = y # ys" and y: "y = last s"
    by (metis append_butlast_last_id list.distinct(1) rev.simps(2) rev_append rev_singleton_conv append_Cons append_Nil)
  from l y have "dropWhile isspace (y # ys) = y # ys" by simp
  with r have "dropWhile isspace (rev s) = rev s" by simp
  moreover from h Cons have "dropWhile isspace s = s" by simp
  ultimately show ?thesis by (simp add: strip_def lstrip_def rstrip_def)
qed

lemma normalize_column_chars:
  "set (normalize_column s) \<inter> {CHR '' '', CHR ''?'', CHR '','', CHR ''('', CHR '')'', CHR ''/''} = {}"
proof -
  let ?a = "replace (CHR '' '') ''_'' (strip s)"
  let ?b = "replace (CHR ''?'') [] ?a"
  let ?c = "replace (CHR '','') [] ?b"
  let ?d = "replace (CHR ''('') [] ?c"
  let ?e = "replace (CHR '')'') [] ?d"
  let ?f = "replace (CHR ''/'') ''_'' ?e"
  have a: "CHR '' '' \<notin> set ?a" using set_replace [of "CHR '' ''" "''_''" "strip s"] by auto
  have b: "set ?b \<subseteq> set ?a - {CHR ''?''}" using set_replace [of "CHR ''?''" "[]" ?a] by auto
  have c: "set ?c \<subseteq> set ?b - {CHR '',''}" using set_replace [of "CHR '',''" "[]" ?b] by auto
  have d: "set ?d \<subseteq> set ?c - {CHR ''(''}" using set_replace [of "CHR ''(''" "[]" ?c] by auto
  have e: "set ?e \<subseteq> set ?d - {CHR '')''}" using set_replace [of "CHR '')''" "[]" ?d] by auto
  have f: "set ?f \<subseteq> (set ?e - {CHR ''/''}) \<union> {CHR ''_''}"
    using set_replace [of "CHR ''/''" "''_''" ?e] by auto
  have 1: "CHR '' '' \<notin> set ?f" using a b c d e f by blast
  have 2: "CHR ''?'' \<notin> set ?f" using b c d e f by blast
  have 3: "CHR '','' \<notin> set ?f" using c d e f by blast
  have 4: "CHR ''('' \<notin> set ?f" using d e f by blast
  have 5: "CHR '')'' \<notin> set ?f" using e f by blast
  have 6: "CHR ''/'' \<notin> set ?f" using f by blast
  have "set ?f \<inter> {CHR '' '', CHR ''?'', CHR '','', CHR ''('', CHR '')'', CHR ''/''} = {}"
    using 1 2 3 4 5 6 by simp
  then show ?thesis by (simp add: normalize_column_def)
qed

lemma normalize_column5_chars:
  "set (normalize_column5 s) \<inter> {CHR '' '', CHR ''?'', CHR '','', CHR ''/''} = {}"
proof -
  let ?a = "replace (CHR '' '') ''_'' (strip s)"
  let ?b = "replace (CHR ''?'') [] ?a"
  let ?c = "replace (CHR '','') [] ?b"
  let ?f = "replace (CHR ''/'') ''_'' ?c"
  have a: "CHR '' '' \<notin> set ?a" using set_replace [of "CHR '' ''" "''_''" "strip s"] by auto
  have b: "set ?b \<subseteq> set ?a - {CHR ''?''}" using set_replace [of "CHR ''?''" "[]" ?a] by auto
  have c: "set ?c \<subseteq> set ?b - {CHR '',''}" using set_replace [of "CHR '',''" "[]" ?b] by auto
  have f: "set ?f \<subseteq> (set ?c - {CHR ''/''}) \<union> {CHR ''_''}"
    using set_replace [of "CHR ''/''" "''_''" ?c] by auto
  have 1: "CHR '' '' \<notin> set ?f" using a b c f by blast
  have 2: "CHR ''?'' \<notin> set ?f" using b c f by blast
  have 3: "CHR '','' \<notin> set ?f" using c f by blast
  have 6: "CHR ''/'' \<notin> set ?f" using f by blast
  have "set ?f \<inter> {CHR '' '', CHR ''?'', CHR '','', CHR ''/''} = {}"
    using 1 2 3 6 by simp
  then show ?thesis by (simp add: normalize_column5_def)
qed

lemma normalize_column_fixed:
  assumes "set t \<inter> {CHR '' '', CHR ''?'', CHR '','', CHR ''('', CHR '')'', CHR ''/''} = {}"
    and "\<not> edge_space t"
  shows "normalize_column t = t"
  using assms by (simp add: normalize_column_def strip_no_edge replace_absent)

lemma normalize_column5_fixed:
  assumes "set t \<inter> {CHR '' '', CHR ''?'', CHR '','', CHR ''/''} = {}"
    and "\<not> edge_space t"
  shows "normalize_column5 t = t"
  using assms by (simp add: normalize_column5_def strip_no_edge replace_absent)

text \<open>
  C4, as amended. Normalizing a normalized name gives the same name whenever the normalized
  name neither begins nor ends with a whitespace character, for the normalization of
  data_analytics.py, data_analytics2.py and data_analytics3.py and for the one of
  data_analytics5.py. (Removing a question mark, a comma or a parenthesis can leave a tab or
  a line break at an end of the name, which \<open>strip\<close> removes on the second pass only.)
\<close>

theorem normalize_column_idempotent:
  "(\<not> edge_space (normalize_column s) \<longrightarrow>
      normalize_column (normalize_column s) = normalize_column s) \<and>
   (\<not> edge_space (normalize_column5 s) \<longrightarrow>
      normalize_column5 (normalize_column5 s) = normalize_column5 s)"
  using normalize_column_fixed [OF normalize_column_chars]
    normalize_column5_fixed [OF normalize_column5_chars]
  by blast

text \<open>The amended claim at the header \<open>" Are you aware (yes/no)? "\<close>.\<close>

theorem normalize_column_idempotent_witness:
  "\<not> edge_space (normalize_column '' Are you aware (yes/no)? '') \<and>
   normalize_column (normalize_column '' Are you aware (yes/no)? '') =
     normalize_column '' Are you aware (yes/no)? '' \<and>
   normalize_column '' Are you aware (yes/no)? '' = ''Are_you_aware_yes_no'' \<and>
   \<not> edge_space (normalize_column5 '' Are you aware (yes/no)? '') \<and>
   normalize_column5 (normalize_column5 '' Are you aware (yes/no)? '') =
     normalize_column5 '' Are you aware (yes/no)? ''"
  using normalize_column_idempotent [of "'' Are you aware (yes/no)? ''"]
  by (simp add: normalize_column_def normalize_column5_def replace_def strip_def lstrip_def
      rstrip_def isspace_def edge_space_def)

text \<open>
  The claim as stated fails at the header made of a question mark, a tab and the letter a:
  the first pass gives the tab and the letter, the second the letter alone.
\<close>

theorem normalize_column_not_idempotent:
  "normalize_column [CHR ''?'', CHR 0x09, CHR ''a''] = [CHR 0x09, CHR ''a''] \<and>
   normalize_column (normalize_column [CHR ''?'', CHR 0x09, CHR ''a'']) = ''a'' \<and>
   normalize_column (normalize_column [CHR ''?'', CHR 0x09, CHR ''a'']) \<noteq>
     normalize_column [CHR ''?'', CHR 0x09, CHR ''a''] \<and>
   normalize_column5 (normalize_column5 [CHR ''?'', CHR 0x09, CHR ''a'']) \<noteq>
     normalize_column5 [CHR ''?'', CHR 0x09, CHR ''a'']"
  by (simp add: normalize_column_def normalize_column5_def replace_def strip_def lstrip_def
      rstrip_def isspace_def)

section \<open>Properties of the Loader\<close>

lemma clean_columns_names:
  "list_all is_name ls \<Longrightarrow> clean_columns f ls = Inr (map (f \<circ> name_of) ls)"
  by (induction f ls rule: clean_columns.induct) (simp_all add: is_name_def name_of_def)

lemma clean_columns_numeric:
  "\<not> list_all is_name ls \<Longrightarrow> clean_columns f ls = Inl AttributeError"
  by (induction f ls rule: clean_columns.induct) (auto simp: is_name_def split: sum.splits)

lemma load_data_numeric_label:
  "\<not> list_all is_name (labels t) \<Longrightarrow>
     load_data (Inr t) = Inl AttributeError \<and> load_data5 (Inr t) = Inl AttributeError"
  by (simp add: load_data_def load_data5_def clean_columns_numeric)

lemma load_data_names:
  "list_all is_name (labels t) \<Longrightarrow>
     load_data (Inr t) =
       Inr \<lparr>columns = map (normalize_column \<circ> name_of) (labels t), rows = raw_rows t\<rparr> \<and>
     load_data5 (Inr t) =
       Inr \<lparr>columns = map (normalize_column5 \<circ> name_of) (labels t), rows = raw_rows t\<rparr>"
  by (simp add: load_data_def load_data5_def clean_columns_names)

text \<open>
  C8. The claim has the Loader succeed on every valid spreadsheet. The scripts do not: on
  the table that \<open>pd.read_excel\<close> returns for a valid sheet whose header row holds the
  number 2024, the clean-up of the column names calls \<open>strip\<close> on the number, and the
  Loader of each script ends with \<open>AttributeError\<close> instead of returning the table.
\<close>

theorem load_data_numeric_header:
  "load_data (Inr numeric_header_table) = Inl AttributeError \<and>
   load_data5 (Inr numeric_header_table) = Inl AttributeError"
  by (simp add: load_data_def load_data5_def numeric_header_table_def)

section \<open>Properties of the embedded copy\<close>


lemma index_of_nth: "distinct xs \<Longrightarrow> i < length xs \<Longrightarrow> index_of (xs ! i) xs = Some i"
proof (induction xs arbitrary: i)
  case Nil
  then show ?case by simp
next
  case (Cons x xs)
  then show ?case by (cases i) auto
qed

lemma distinct_b64_alphabet: "distinct b64_alphabet"
  by (simp add: b64_alphabet_def)

lemma length_b64_alphabet: "length b64_alphabet = 64"
  by (simp add: b64_alphabet_def)

lemma b64_index_char: "i < 64 \<Longrightarrow> b64_index (b64_char i) = Some i"
  by (simp add: b64_index_def b64_char_def index_of_nth distinct_b64_alphabet length_b64_alphabet)

lemma b64_char_not_pad: "i < 64 \<Longrightarrow> b64_char i \<noteq> CHR ''=''"
proof -
  assume "i < 64"
  then have "b64_char i \<in> set b64_alphabet"
    by (simp add: b64_char_def length_b64_alphabet)
  moreover have "CHR ''='' \<notin> set b64_alphabet" by (simp add: b64_alphabet_def)
  ultimately show ?thesis by auto
qed

lemma sextets3a:
  fixes n :: nat
  shows "((n div 262144 * 64 + n div 4096 mod 64) * 64 + n div 64 mod 64) * 64 + n mod 64 = n"
proof -
  have 1: "n div 4096 = n div 64 div 64" by (simp add: div_mult2_eq)
  have 2: "n div 262144 = n div 64 div 64 div 64" by (simp add: div_mult2_eq)
  let ?q = "n div 64"
  let ?r = "?q div 64"
  have "?r div 64 * 64 + ?r mod 64 = ?r" by simp
  moreover have "?r * 64 + ?q mod 64 = ?q" by simp
  moreover have "?q * 64 + n mod 64 = n" by simp
  ultimately show ?thesis unfolding 1 2 by simp
qed

lemma bytes3:
  fixes a b c :: nat
  assumes "b < 256" "c < 256"
  shows "(a * 65536 + b * 256 + c) div 65536 = a"
    and "(a * 65536 + b * 256 + c) div 256 mod 256 = b"
    and "(a * 65536 + b * 256 + c) mod 256 = c"
proof -
  have e: "a * 65536 + b * 256 + c = (a * 256 + b) * 256 + c" by simp
  show "(a * 65536 + b * 256 + c) div 65536 = a" using assms by auto
  have d: "((a * 256 + b) * 256 + c) div 256 = a * 256 + b" using assms by simp
  have m: "(a * 256 + b) mod 256 = b" using assms by simp
  show "(a * 65536 + b * 256 + c) div 256 mod 256 = b" unfolding e d m ..
  have g: "(k * 256 + c) mod 256 = c" for k using assms by simp
  have m2: "((a * 256 + b) * 256 + c) mod 256 = c" by (rule g)
  show "(a * 65536 + b * 256 + c) mod 256 = c" unfolding e m2 ..
qed

lemma pair2:
  fixes a b :: nat
  assumes "a < 256" "b < 256"
  defines "n \<equiv> (a * 256 + b) * 4"
  shows "((n div 4096 * 64 + n div 64 mod 64) * 64 + n mod 64) div 4 div 256 = a"
    and "((n div 4096 * 64 + n div 64 mod 64) * 64 + n mod 64) div 4 mod 256 = b"
    and "n div 4096 < 64"
proof -
  have 1: "n div 4096 = n div 64 div 64" by (simp add: div_mult2_eq)
  have "(n div 64 div 64 * 64 + n div 64 mod 64) * 64 + n mod 64 = n" by simp
  then have r: "(n div 4096 * 64 + n div 64 mod 64) * 64 + n mod 64 = n" unfolding 1 .
  have d: "n div 4 = a * 256 + b" by (simp add: n_def)
  show "((n div 4096 * 64 + n div 64 mod 64) * 64 + n mod 64) div 4 div 256 = a"
    unfolding r d using assms by simp
  show "((n div 4096 * 64 + n div 64 mod 64) * 64 + n mod 64) div 4 mod 256 = b"
    unfolding r d using assms by simp
  show "n div 4096 < 64" using assms by (simp add: n_def)
qed

lemma single1:
  fixes a :: nat
  assumes "a < 256"
  defines "n \<equiv> a * 16"
  shows "(n div 64 * 64 + n mod 64) div 16 = a" and "n div 64 < 64"
proof -
  have r: "n div 64 * 64 + n mod 64 = n" by simp
  have d: "n div 16 = a" by (simp add: n_def)
  show "(n div 64 * 64 + n mod 64) div 16 = a" unfolding r d ..
  show "n div 64 < 64" using assms by (simp add: n_def)
qed

lemma top3:
  fixes a b c :: nat
  assumes "a < 256" "b < 256" "c < 256"
  shows "(a * 65536 + b * 256 + c) div 262144 < 64"
  using assms by auto

lemma unat_byte: "unat (a :: byte) < 256"
  using unsigned_less [of a, where ?'a = nat] by simp

lemma of_nat_unat_byte: "of_nat (unat (a :: byte)) = a"
  by simp

lemma b64decode_pad2:
  assumes "i0 < 64" "i1 < 64"
  shows "b64decode [b64_char i0, b64_char i1, CHR ''='', CHR ''=''] =
         Inr [of_nat ((i0 * 64 + i1) div 16)]"
  using assms by (simp add: b64_index_char)

lemma b64decode_pad1:
  assumes "i0 < 64" "i1 < 64" "i2 < 64"
  shows "b64decode [b64_char i0, b64_char i1, b64_char i2, CHR ''=''] =
         Inr [of_nat (((i0 * 64 + i1) * 64 + i2) div 4 div 256),
              of_nat (((i0 * 64 + i1) * 64 + i2) div 4 mod 256)]"
  using assms by (simp add: b64_index_char b64_char_not_pad Let_def)

lemma b64decode_quad:
  assumes "i0 < 64" "i1 < 64" "i2 < 64" "i3 < 64" "b64decode cs = Inr bs"
  shows "b64decode (b64_char i0 # b64_char i1 # b64_char i2 # b64_char i3 # cs) =
         Inr (of_nat ((((i0 * 64 + i1) * 64 + i2) * 64 + i3) div 65536) #
              of_nat ((((i0 * 64 + i1) * 64 + i2) * 64 + i3) div 256 mod 256) #
              of_nat ((((i0 * 64 + i1) * 64 + i2) * 64 + i3) mod 256) # bs)"
  using assms by (simp add: b64_index_char b64_char_not_pad Let_def)

lemma b64decode_b64encode: "b64decode (b64encode bs) = Inr bs"
proof (induction bs rule: b64encode.induct)
  case 1
  then show ?case by simp
next
  case (2 a)
  define n where "n = unat a * 16"
  have a: "unat a < 256" by (rule unat_byte)
  have e: "b64encode [a] = [b64_char (n div 64), b64_char (n mod 64), CHR ''='', CHR ''='']"
    unfolding n_def by (simp add: Let_def)
  have i0: "n div 64 < 64" unfolding n_def by (rule single1(2) [OF a])
  have i1: "n mod 64 < 64" by simp
  have v: "(n div 64 * 64 + n mod 64) div 16 = unat a"
    unfolding n_def by (rule single1(1) [OF a])
  show ?case unfolding e b64decode_pad2 [OF i0 i1] v of_nat_unat_byte ..
next
  case (3 a b)
  define n where "n = (unat a * 256 + unat b) * 4"
  have a: "unat a < 256" and b: "unat b < 256" by (rule unat_byte)+
  have e: "b64encode [a, b] =
      [b64_char (n div 4096), b64_char (n div 64 mod 64), b64_char (n mod 64), CHR ''='']"
    unfolding n_def by (simp add: Let_def)
  have i0: "n div 4096 < 64" unfolding n_def by (rule pair2(3) [OF a b])
  have i1: "n div 64 mod 64 < 64" by simp
  have i2: "n mod 64 < 64" by simp
  have v1: "((n div 4096 * 64 + n div 64 mod 64) * 64 + n mod 64) div 4 div 256 = unat a"
    unfolding n_def by (rule pair2(1) [OF a b])
  have v2: "((n div 4096 * 64 + n div 64 mod 64) * 64 + n mod 64) div 4 mod 256 = unat b"
    unfolding n_def by (rule pair2(2) [OF a b])
  show ?case unfolding e b64decode_pad1 [OF i0 i1 i2] v1 v2 of_nat_unat_byte ..
next
  case (4 a b c bs)
  define n where "n = unat a * 65536 + unat b * 256 + unat c"
  have a: "unat a < 256" and b: "unat b < 256" and c: "unat c < 256" by (rule unat_byte)+
  have e: "b64encode (a # b # c # bs) =
      b64_char (n div 262144) # b64_char (n div 4096 mod 64) #
      b64_char (n div 64 mod 64) # b64_char (n mod 64) # b64encode bs"
    unfolding n_def by (simp add: Let_def)
  have i0: "n div 262144 < 64" unfolding n_def by (rule top3 [OF a b c])
  have i1: "n div 4096 mod 64 < 64" by simp
  have i2: "n div 64 mod 64 < 64" by simp
  have i3: "n mod 64 < 64" by simp
  have r: "((n div 262144 * 64 + n div 4096 mod 64) * 64 + n div 64 mod 64) * 64 + n mod 64 = n"
    by (rule sextets3a)
  have v1: "n div 65536 = unat a" unfolding n_def by (rule bytes3(1) [OF b c])
  have v2: "n div 256 mod 256 = unat b" unfolding n_def by (rule bytes3(2) [OF b c])
  have v3: "n mod 256 = unat c" unfolding n_def by (rule bytes3(3) [OF b c])
  have ih: "b64decode (b64encode bs) = Inr bs" using 4 by simp
  show ?case
    unfolding e b64decode_quad [OF i0 i1 i2 i3 ih] r v1 v2 v3 of_nat_unat_byte ..
qed

lemma embedded_blob_data_uri: "embedded_blob (data_uri enc) = enc"
  by (simp add: embedded_blob_def data_uri_def)

text \<open>
  C9. For every table, every spreadsheet writer and every file system, the Loader of
  data_analytics3.py and data_analytics5.py writes the copy to \<open>survey_data.xlsx\<close> and
  returns an encoded text whose base64 decoding, taken from the data URI of the report, is
  exactly the bytes of that file.
\<close>

theorem embedded_copy_roundtrip:
  "\<exists>fs' enc. embed_dataset write df fs = Inr (fs', enc) \<and>
     fs' EMBED_XLSX = Some (write df) \<and>
     b64decode (embedded_blob (data_uri enc)) = Inr (write df)"
  by (simp add: embed_dataset_def to_excel_def read_bytes_def embedded_blob_data_uri
      b64decode_b64encode)

section \<open>Properties of the Persister\<close>

lemma to_sql_eq:
  "to_sql df name conn =
     (if list_ex (\<lambda>c. c = [] \<or> CHR 0x00 \<in> set c) (columns df) then Inl ValueError
      else if \<not> distinct (map sql_name (columns df)) then Inl DatabaseError
      else Inr (conn(name \<mapsto> df)))"
  by (auto simp: to_sql_def create_table_def insert_rows_def drop_table_def Let_def)

lemma to_sql_valid: "valid_columns (columns df) \<Longrightarrow> to_sql df name conn = Inr (conn(name \<mapsto> df))"
  by (simp add: to_sql_eq valid_columns_def)

lemma to_sql_Inr: "to_sql df name conn = Inr conn' \<Longrightarrow> conn' = conn(name \<mapsto> df)"
  by (auto simp: to_sql_eq split: if_splits)

lemma valid_example_survey: "valid_columns (columns example_survey)"
  by (simp add: valid_columns_def example_survey_def AWARE_def KNOW_def TRAINING_def GENDER_def
      sql_name_def)

lemma to_sql_example:
  "to_sql example_survey ''survey'' example_db = Inr (example_db(''survey'' \<mapsto> example_survey))"
  by (rule to_sql_valid [OF valid_example_survey])

text \<open>
  C7. Whatever the database held before, after \<open>to_sql\<close> has run the table it wrote is
  exactly the table in memory (its columns and its rows, nothing kept from an earlier
  table of that name), and the other tables of the database are as they were.
\<close>

theorem to_sql_replaces:
  "to_sql df name conn = Inr conn' \<Longrightarrow>
     conn' name = Some df \<and> (\<forall>t. t \<noteq> name \<longrightarrow> conn' t = conn t)"
  by (auto simp: to_sql_eq split: if_splits)

text \<open>C7 on a database whose table \<open>survey\<close> holds two rows of an earlier run.\<close>

theorem to_sql_replaces_witness:
  "to_sql example_survey ''survey'' example_db = Inr (example_db(''survey'' \<mapsto> example_survey)) \<and>
   example_db ''survey'' = Some \<lparr>columns = [''Old''], rows = [[Text ''x''], [Text ''y'']]\<rparr> \<and>
   (example_db(''survey'' \<mapsto> example_survey)) ''survey'' = Some example_survey"
  using to_sql_replaces [OF to_sql_example] to_sql_example
  by (simp add: example_db_def)

section \<open>Properties of the Aggregator\<close>

lemma sum_list_insort_key: "sum_list (map g (insort_key f x xs)) = g x + sum_list (map g xs)"
  for g :: "'a \<Rightarrow> int"
  by (induction xs) simp_all

lemma sum_list_sort_key: "sum_list (map g (sort_key f xs)) = sum_list (map g xs)"
  for g :: "'a \<Rightarrow> int"
  by (induction xs) (simp_all add: sum_list_insort_key)

lemma sum_count_distinct:
  assumes "distinct us" and "set us = set vs"
  shows "sum_list (map (\<lambda>k. int (count_list vs k)) us) = int (length vs)"
proof -
  have "sum_list (map (\<lambda>k. int (count_list vs k)) us) = (\<Sum>k\<in>set us. int (count_list vs k))"
    using assms(1) by (rule sum_list_distinct_conv_sum_set)
  also have "\<dots> = int (\<Sum>k\<in>set vs. count_list vs k)" using assms(2) by simp
  also have "(\<Sum>k\<in>set vs. count_list vs k) = length vs"
    by (rule sum_count_set) simp_all
  finally show ?thesis .
qed

lemma sum_count_groups:
  "sum_list (map (\<lambda>k. int (count_list ks k)) (sort_key key_rank (remdups ks))) = int (length ks)"
  by (simp add: sum_list_sort_key sum_count_distinct)

lemma series_sum_numbers: "series_sum (map (\<lambda>k. Number (f k)) xs) = Inr (sum_list (map f xs))"
  by (induction xs) simp_all

lemma cell_at_last: "length k = n \<Longrightarrow> cell_at (k @ [c]) n = c"
  by (auto simp: cell_at_def)

lemma count_column:
  assumes "\<forall>k\<in>set ks. length k = n"
  shows "map (\<lambda>r. cell_at r n) (count_groups ks) =
         map (\<lambda>k. Number (int (count_list ks k))) (sort_key key_rank (remdups ks))"
  using assms by (simp add: count_groups_def cell_at_last)

lemma total_count_groups:
  assumes "\<forall>k\<in>set ks. length k = n" and "index_of ''Count'' cols = Some n"
  shows "total_count \<lparr>columns = cols, rows = count_groups ks\<rparr> = Inr (int (length ks))"
  using assms
  by (simp add: total_count_def get_column_def count_column series_sum_numbers sum_count_groups)

lemma index_of_append_last: "x \<notin> set xs \<Longrightarrow> index_of x (xs @ [x]) = Some (length xs)"
  by (induction xs) auto

lemma index_of_Some_less: "index_of x xs = Some i \<Longrightarrow> i < length xs \<and> xs ! i = x"
  by (induction xs arbitrary: i) (auto split: if_splits)

lemma sql_column_indices_length:
  "sql_column_indices cols ns = Some js \<Longrightarrow> length js = length ns"
  by (induction ns arbitrary: js) (auto split: option.splits)

lemma column_indices_length:
  "column_indices cols ns = Inr js \<Longrightarrow> length js = length ns"
  by (induction ns arbitrary: js) (auto split: option.splits sum.splits)

lemma keys_then_count_groups:
  assumes "\<forall>k\<in>set ks. length k = length keys"
  shows "keys_then_count keys \<lparr>columns = keys @ [''Count''], rows = count_groups ks\<rparr>"
  using assms by (simp add: keys_then_count_def count_groups_def list_all_iff is_number_def)

lemma read_sql_query_Inr:
  assumes "read_sql_query conn t sel = Inr s" and "conn t = Some tbl"
  obtains js where "sql_column_indices (columns tbl) (map fst sel) = Some js"
    and "s = \<lparr>columns = map snd sel @ [''Count''],
              rows = count_groups (map (\<lambda>r. map (cell_at r) js) (rows tbl))\<rparr>"
  using assms by (auto simp: read_sql_query_def split: option.splits)

lemma read_sql_query_total:
  assumes "read_sql_query conn t sel = Inr s" and "conn t = Some tbl"
    and "''Count'' \<notin> set (map snd sel)"
  shows "total_count s = Inr (int (length (rows tbl)))"
proof -
  from assms(1,2) obtain js where js: "sql_column_indices (columns tbl) (map fst sel) = Some js"
    and s: "s = \<lparr>columns = map snd sel @ [''Count''],
              rows = count_groups (map (\<lambda>r. map (cell_at r) js) (rows tbl))\<rparr>"
    by (rule read_sql_query_Inr)
  have l: "length js = length (map snd sel)" using sql_column_indices_length [OF js] by simp
  have i: "index_of ''Count'' (map snd sel @ [''Count'']) = Some (length (map snd sel))"
    using assms(3) by (rule index_of_append_last)
  have "total_count s = Inr (int (length (map (\<lambda>r. map (cell_at r) js) (rows tbl))))"
    unfolding s by (rule total_count_groups [OF _ i]) (simp add: l)
  then show ?thesis by simp
qed

lemma read_sql_query_shape:
  assumes "read_sql_query conn t sel = Inr s"
  shows "keys_then_count (map snd sel) s"
proof -
  from assms obtain tbl where t: "conn t = Some tbl"
    by (auto simp: read_sql_query_def split: option.splits)
  from assms t obtain js where js: "sql_column_indices (columns tbl) (map fst sel) = Some js"
    and s: "s = \<lparr>columns = map snd sel @ [''Count''],
              rows = count_groups (map (\<lambda>r. map (cell_at r) js) (rows tbl))\<rparr>"
    by (rule read_sql_query_Inr)
  have l: "length js = length (map snd sel)" using sql_column_indices_length [OF js] by simp
  show ?thesis unfolding s by (rule keys_then_count_groups) (simp add: l)
qed

lemma grouped5_Inr:
  assumes "grouped5 df keys names = Inr t"
  obtains js where "column_indices (columns df) keys = Inr js"
    and "length names = length keys + 1"
    and "t = \<lparr>columns = names,
              rows = count_groups
                       (filter (\<lambda>k. Null \<notin> set k) (map (\<lambda>r. map (cell_at r) js) (rows df)))\<rparr>"
  using assms
  by (auto simp: grouped5_def groupby_size_def set_columns_def split: sum.splits if_splits)

lemma dropna_Inr:
  assumes "dropna df names = Inr d"
  obtains js where "column_indices (columns df) names = Inr js"
    and "d = df\<lparr>rows := filter (\<lambda>r. Null \<notin> set (map (cell_at r) js)) (rows df)\<rparr>"
  using assms by (auto simp: dropna_def split: sum.splits)

lemma grouped5_total:
  assumes g: "grouped5 df keys names = Inr t" and d: "dropna df keys = Inr dd"
    and i: "index_of ''Count'' names = Some (length keys)"
  shows "total_count t = Inr (int (length (rows dd)))"
proof -
  from g obtain js where js: "column_indices (columns df) keys = Inr js"
    and t: "t = \<lparr>columns = names,
              rows = count_groups
                       (filter (\<lambda>k. Null \<notin> set k) (map (\<lambda>r. map (cell_at r) js) (rows df)))\<rparr>"
    by (rule grouped5_Inr)
  from d js have dd: "rows dd = filter (\<lambda>r. Null \<notin> set (map (cell_at r) js)) (rows df)"
    by (auto elim!: dropna_Inr)
  have l: "length js = length keys" by (rule column_indices_length [OF js])
  have "total_count t =
      Inr (int (length (filter (\<lambda>k. Null \<notin> set k) (map (\<lambda>r. map (cell_at r) js) (rows df)))))"
    unfolding t by (rule total_count_groups [OF _ i]) (auto simp: l)
  also have "length (filter (\<lambda>k. Null \<notin> set k) (map (\<lambda>r. map (cell_at r) js) (rows df)))
      = length (rows dd)"
    unfolding dd by (simp add: comp_def)
  finally show ?thesis .
qed

lemma grouped5_shape:
  assumes g: "grouped5 df keys (names @ [''Count'']) = Inr t"
  shows "keys_then_count names t"
proof -
  from g obtain js where js: "column_indices (columns df) keys = Inr js"
    and n: "length (names @ [''Count'']) = length keys + 1"
    and t: "t = \<lparr>columns = names @ [''Count''],
              rows = count_groups
                       (filter (\<lambda>k. Null \<notin> set k) (map (\<lambda>r. map (cell_at r) js) (rows df)))\<rparr>"
    by (rule grouped5_Inr)
  have l: "length js = length names" using column_indices_length [OF js] n by simp
  show ?thesis unfolding t by (rule keys_then_count_groups) (auto simp: l)
qed

lemma value_counts_sum:
  "sum_list (map (\<lambda>p. int (snd p)) (value_counts xs)) = int (length (filter (\<lambda>x. x \<noteq> Null) xs))"
proof -
  let ?vs = "filter (\<lambda>x. x \<noteq> Null) xs"
  have "sum_list (map (\<lambda>p. int (snd p)) (value_counts xs))
      = sum_list (map (\<lambda>v. int (count_list ?vs v)) (rev (remdups (rev ?vs))))"
    by (simp add: value_counts_def Let_def sum_list_sort_key comp_def)
  also have "\<dots> = int (length ?vs)"
    by (rule sum_count_distinct) simp_all
  finally show ?thesis .
qed

lemma awareness5_Inr:
  assumes "awareness5 df = Inr a"
  obtains xs where "get_column df AWARE = Inr xs"
    and "a = \<lparr>columns = [''Awareness'', ''Count''],
              rows = map (\<lambda>p. [fst p, Number (int (snd p))]) (value_counts xs)\<rparr>"
  using assms
  by (auto simp: awareness5_def set_columns_def reset_index_def split: sum.splits)

lemma awareness5_total:
  assumes "awareness5 df = Inr a" and "get_column df AWARE = Inr xs"
  shows "total_count a = Inr (int (length (filter (\<lambda>x. x \<noteq> Null) xs)))"
proof -
  from assms have a: "a = \<lparr>columns = [''Awareness'', ''Count''],
              rows = map (\<lambda>p. [fst p, Number (int (snd p))]) (value_counts xs)\<rparr>"
    by (auto elim!: awareness5_Inr)
  have c: "map (\<lambda>r. cell_at r (Suc 0)) (map (\<lambda>p. [fst p, Number (int (snd p))]) (value_counts xs))
      = map (\<lambda>p. Number (int (snd p))) (value_counts xs)"
    by (simp add: cell_at_def)
  have "get_column a ''Count'' = Inr (map (\<lambda>p. Number (int (snd p))) (value_counts xs))"
    unfolding a using c by (simp add: get_column_def)
  then show ?thesis
    by (simp add: total_count_def series_sum_numbers value_counts_sum)
qed

lemma awareness5_shape:
  assumes "awareness5 df = Inr a"
  shows "keys_then_count [''Awareness''] a"
  using assms
  by (auto elim!: awareness5_Inr simp: keys_then_count_def list_all_iff is_number_def)

lemma length2E:
  assumes "length k = 2"
  obtains a b where "k = [a, b]"
  using assms by (cases k; cases "tl k") auto

lemma training_reporting5_eq:
  "training_reporting5 df = grouped5 df [TRAINING, KNOW] [''Training'', ''Know_Whom'', ''Count'']"
proof (cases "grouped5 df [TRAINING, KNOW] [''Training'', ''Know_Whom'', ''Count'']")
  case (Inl e)
  then show ?thesis by (simp add: training_reporting5_def)
next
  case (Inr g)
  then obtain js where js: "column_indices (columns df) [TRAINING, KNOW] = Inr js"
    and g: "g = \<lparr>columns = [''Training'', ''Know_Whom'', ''Count''],
              rows = count_groups
                       (filter (\<lambda>k. Null \<notin> set k) (map (\<lambda>r. map (cell_at r) js) (rows df)))\<rparr>"
    by (rule grouped5_Inr)
  have l: "length js = 2" using column_indices_length [OF js] by simp
  have "Null \<notin> set (map (cell_at r) [0, Suc 0])" if "r \<in> set (rows g)" for r
  proof -
    from that obtain k c where r: "r = k @ [c]" and n: "Null \<notin> set k" and k: "length k = 2"
      unfolding g by (auto simp: count_groups_def l)
    from k obtain a b where "k = [a, b]" by (rule length2E)
    with r n show ?thesis by (simp add: cell_at_def)
  qed
  then have f: "filter (\<lambda>r. Null \<notin> set (map (cell_at r) [0, Suc 0])) (rows g) = rows g"
    by (simp add: filter_id_conv)
  have "dropna g [''Training'', ''Know_Whom''] = Inr g"
    using f by (simp add: dropna_def g)
  with Inr show ?thesis by (simp add: training_reporting5_def)
qed

lemma analysis5_Inr:
  assumes "analysis5 df = Inr an"
  shows "awareness5 df = Inr (awareness_df (tables an))"
    and "grouped5 df [AWARE, KNOW] [''Awareness'', ''Know_Whom'', ''Count'']
           = Inr (awareness_reporting_df (tables an))"
    and "grouped5 df [TRAINING, KNOW] [''Training'', ''Know_Whom'', ''Count'']
           = Inr (training_reporting_df (tables an))"
    and "grouped5 df [GENDER, AWARE] [''Gender'', ''Awareness'', ''Count'']
           = Inr (gender_awareness_df (tables an))"
  using assms
  by (auto simp: analysis5_def training_reporting5_eq split: sum.splits)

lemma aggregate_sql_Inr:
  assumes "aggregate_sql k conn = Inr s"
  shows "read_sql_query conn ''survey'' [(AWARE, ''Awareness'')] = Inr (awareness_df s)"
    and "read_sql_query conn ''survey'' [(AWARE, ''Awareness''), (KNOW, k)]
           = Inr (awareness_reporting_df s)"
    and "read_sql_query conn ''survey'' [(TRAINING, ''Training''), (KNOW, k)]
           = Inr (training_reporting_df s)"
    and "read_sql_query conn ''survey'' [(GENDER, ''Gender''), (AWARE, ''Awareness'')]
           = Inr (gender_awareness_df s)"
  using assms
  by (auto simp: aggregate_sql_def split: sum.splits)

text \<open>
  C1. In the SQL variants every summary table counts every row of the table that was
  persisted: the counts of each of the four tables sum to the number of rows, a missing
  answer being a group of its own. In the pandas variant the rows with a missing answer in
  a key column are dropped, and the counts of each table sum to the number of the rows that
  \<open>dropna\<close> on its key columns keeps.
\<close>

theorem counts_sum_to_rows:
  "(to_sql df ''survey'' conn0 = Inr conn \<longrightarrow> aggregate_sql know_alias conn = Inr s \<longrightarrow>
      know_alias \<noteq> ''Count'' \<longrightarrow>
        total_count (awareness_df s) = Inr (int (length (rows df))) \<and>
        total_count (awareness_reporting_df s) = Inr (int (length (rows df))) \<and>
        total_count (training_reporting_df s) = Inr (int (length (rows df))) \<and>
        total_count (gender_awareness_df s) = Inr (int (length (rows df)))) \<and>
   (analysis5 df = Inr an \<longrightarrow>
      (\<exists>d1 d2 d3 d4.
        dropna df [AWARE] = Inr d1 \<and> dropna df [AWARE, KNOW] = Inr d2 \<and>
        dropna df [TRAINING, KNOW] = Inr d3 \<and> dropna df [GENDER, AWARE] = Inr d4 \<and>
        total_count (awareness_df (tables an)) = Inr (int (length (rows d1))) \<and>
        total_count (awareness_reporting_df (tables an)) = Inr (int (length (rows d2))) \<and>
        total_count (training_reporting_df (tables an)) = Inr (int (length (rows d3))) \<and>
        total_count (gender_awareness_df (tables an)) = Inr (int (length (rows d4)))))"
proof (intro conjI impI)
  assume p: "to_sql df ''survey'' conn0 = Inr conn" and a: "aggregate_sql know_alias conn = Inr s"
    and k: "know_alias \<noteq> ''Count''"
  have t: "conn ''survey'' = Some df" using to_sql_Inr [OF p] by simp
  note q = aggregate_sql_Inr [OF a]
  show "total_count (awareness_df s) = Inr (int (length (rows df)))"
    by (rule read_sql_query_total [OF q(1) t]) simp
  show "total_count (awareness_reporting_df s) = Inr (int (length (rows df)))"
    by (rule read_sql_query_total [OF q(2) t]) (use k in auto)
  show "total_count (training_reporting_df s) = Inr (int (length (rows df)))"
    by (rule read_sql_query_total [OF q(3) t]) (use k in auto)
  show "total_count (gender_awareness_df s) = Inr (int (length (rows df)))"
    by (rule read_sql_query_total [OF q(4) t]) simp
next
  assume an: "analysis5 df = Inr an"
  note g = analysis5_Inr [OF an]
  from g(1) obtain xs where xs: "get_column df AWARE = Inr xs" by (rule awareness5_Inr)
  then obtain i where i: "index_of AWARE (columns df) = Some i"
    and xs': "xs = map (\<lambda>r. cell_at r i) (rows df)"
    by (auto simp: get_column_def split: option.splits)
  define d1 where "d1 = df\<lparr>rows := filter (\<lambda>r. Null \<notin> set (map (cell_at r) [i])) (rows df)\<rparr>"
  have d1: "dropna df [AWARE] = Inr d1" by (simp add: dropna_def i d1_def)
  have l1: "length (rows d1) = length (filter (\<lambda>x. x \<noteq> Null) xs)"
    by (simp add: d1_def xs' comp_def) (metis)
  from g(2) obtain j2 where j2: "column_indices (columns df) [AWARE, KNOW] = Inr j2"
    by (rule grouped5_Inr)
  from g(3) obtain j3 where j3: "column_indices (columns df) [TRAINING, KNOW] = Inr j3"
    by (rule grouped5_Inr)
  from g(4) obtain j4 where j4: "column_indices (columns df) [GENDER, AWARE] = Inr j4"
    by (rule grouped5_Inr)
  from j2 obtain d2 where d2: "dropna df [AWARE, KNOW] = Inr d2" by (simp add: dropna_def)
  from j3 obtain d3 where d3: "dropna df [TRAINING, KNOW] = Inr d3" by (simp add: dropna_def)
  from j4 obtain d4 where d4: "dropna df [GENDER, AWARE] = Inr d4" by (simp add: dropna_def)
  have t1: "total_count (awareness_df (tables an)) = Inr (int (length (rows d1)))"
    using awareness5_total [OF g(1) xs] l1 by simp
  have t2: "total_count (awareness_reporting_df (tables an)) = Inr (int (length (rows d2)))"
    by (rule grouped5_total [OF g(2) d2]) simp
  have t3: "total_count (training_reporting_df (tables an)) = Inr (int (length (rows d3)))"
    by (rule grouped5_total [OF g(3) d3]) simp
  have t4: "total_count (gender_awareness_df (tables an)) = Inr (int (length (rows d4)))"
    by (rule grouped5_total [OF g(4) d4]) simp
  from d1 d2 d3 d4 t1 t2 t3 t4
  show "\<exists>d1 d2 d3 d4.
        dropna df [AWARE] = Inr d1 \<and> dropna df [AWARE, KNOW] = Inr d2 \<and>
        dropna df [TRAINING, KNOW] = Inr d3 \<and> dropna df [GENDER, AWARE] = Inr d4 \<and>
        total_count (awareness_df (tables an)) = Inr (int (length (rows d1))) \<and>
        total_count (awareness_reporting_df (tables an)) = Inr (int (length (rows d2))) \<and>
        total_count (training_reporting_df (tables an)) = Inr (int (length (rows d3))) \<and>
        total_count (gender_awareness_df (tables an)) = Inr (int (length (rows d4)))"
    by blast
qed

lemma example_aggregate_sql:
  "\<not> isl (aggregate_sql ''Know_Whom_To_Report'' (example_db(''survey'' \<mapsto> example_survey)))"
  by code_simp

lemma example_analysis5: "\<not> isl (analysis5 example_survey)"
  by code_simp

lemma example_dropna:
  "length (rows (projr (dropna example_survey [AWARE]))) = 4"
  "length (rows (projr (dropna example_survey [AWARE, KNOW]))) = 3"
  "length (rows (projr (dropna example_survey [TRAINING, KNOW]))) = 3"
  "length (rows (projr (dropna example_survey [GENDER, AWARE]))) = 4"
  by code_simp+

text \<open>C1 on the example survey: five rows, of which one has no answer on awareness.\<close>

theorem counts_sum_to_rows_witness:
  "to_sql example_survey ''survey'' example_db = Inr (example_db(''survey'' \<mapsto> example_survey)) \<and>
   \<not> isl (aggregate_sql ''Know_Whom_To_Report'' (example_db(''survey'' \<mapsto> example_survey))) \<and>
   \<not> isl (analysis5 example_survey) \<and>
   length (rows example_survey) = 5 \<and>
   total_count (awareness_df (projr (aggregate_sql ''Know_Whom_To_Report''
       (example_db(''survey'' \<mapsto> example_survey))))) = Inr 5 \<and>
   total_count (gender_awareness_df (projr (aggregate_sql ''Know_Whom_To_Report''
       (example_db(''survey'' \<mapsto> example_survey))))) = Inr 5 \<and>
   total_count (awareness_df (tables (projr (analysis5 example_survey)))) = Inr 4 \<and>
   total_count (awareness_reporting_df (tables (projr (analysis5 example_survey)))) = Inr 3 \<and>
   total_count (training_reporting_df (tables (projr (analysis5 example_survey)))) = Inr 3 \<and>
   total_count (gender_awareness_df (tables (projr (analysis5 example_survey)))) = Inr 4"
proof -
  let ?conn = "example_db(''survey'' \<mapsto> example_survey)"
  let ?s = "projr (aggregate_sql ''Know_Whom_To_Report'' ?conn)"
  let ?an = "projr (analysis5 example_survey)"
  have a: "aggregate_sql ''Know_Whom_To_Report'' ?conn = Inr ?s"
    using example_aggregate_sql by simp
  have b: "analysis5 example_survey = Inr ?an"
    using example_analysis5 by simp
  have l: "length (rows example_survey) = 5" by (simp add: example_survey_def)
  note c = counts_sum_to_rows [of example_survey example_db ?conn "''Know_Whom_To_Report''" ?s ?an]
  from c to_sql_example a have sql:
    "total_count (awareness_df ?s) = Inr 5" "total_count (gender_awareness_df ?s) = Inr 5"
    by (simp_all add: l)
  from c b obtain d1 d2 d3 d4 where
    d: "dropna example_survey [AWARE] = Inr d1" "dropna example_survey [AWARE, KNOW] = Inr d2"
       "dropna example_survey [TRAINING, KNOW] = Inr d3" "dropna example_survey [GENDER, AWARE] = Inr d4"
    and t: "total_count (awareness_df (tables ?an)) = Inr (int (length (rows d1)))"
       "total_count (awareness_reporting_df (tables ?an)) = Inr (int (length (rows d2)))"
       "total_count (training_reporting_df (tables ?an)) = Inr (int (length (rows d3)))"
       "total_count (gender_awareness_df (tables ?an)) = Inr (int (length (rows d4)))"
    by blast
  from d example_dropna have
    "length (rows d1) = 4" "length (rows d2) = 3" "length (rows d3) = 3" "length (rows d4) = 4"
    by simp_all
  with t sql to_sql_example example_aggregate_sql example_analysis5 l show ?thesis by simp
qed

text \<open>
  C6. Every summary table of the Aggregator has the key columns first, in the order of the
  query or of the \<open>groupby\<close>, and \<open>Count\<close> last, and every row has the key cells first
  and the count, a number, last.
\<close>

theorem summary_column_order:
  "(aggregate_sql know_alias conn = Inr s \<longrightarrow>
      keys_then_count [''Awareness''] (awareness_df s) \<and>
      keys_then_count [''Awareness'', know_alias] (awareness_reporting_df s) \<and>
      keys_then_count [''Training'', know_alias] (training_reporting_df s) \<and>
      keys_then_count [''Gender'', ''Awareness''] (gender_awareness_df s)) \<and>
   (analysis5 df = Inr an \<longrightarrow>
      keys_then_count [''Awareness''] (awareness_df (tables an)) \<and>
      keys_then_count [''Awareness'', ''Know_Whom''] (awareness_reporting_df (tables an)) \<and>
      keys_then_count [''Training'', ''Know_Whom''] (training_reporting_df (tables an)) \<and>
      keys_then_count [''Gender'', ''Awareness''] (gender_awareness_df (tables an)))"
proof (intro conjI impI)
  assume a: "aggregate_sql know_alias conn = Inr s"
  note q = aggregate_sql_Inr [OF a]
  show "keys_then_count [''Awareness''] (awareness_df s)"
    using read_sql_query_shape [OF q(1)] by simp
  show "keys_then_count [''Awareness'', know_alias] (awareness_reporting_df s)"
    using read_sql_query_shape [OF q(2)] by simp
  show "keys_then_count [''Training'', know_alias] (training_reporting_df s)"
    using read_sql_query_shape [OF q(3)] by simp
  show "keys_then_count [''Gender'', ''Awareness''] (gender_awareness_df s)"
    using read_sql_query_shape [OF q(4)] by simp
next
  assume an: "analysis5 df = Inr an"
  note g = analysis5_Inr [OF an]
  show "keys_then_count [''Awareness''] (awareness_df (tables an))"
    by (rule awareness5_shape [OF g(1)])
  show "keys_then_count [''Awareness'', ''Know_Whom''] (awareness_reporting_df (tables an))"
    by (rule grouped5_shape) (use g(2) in simp)
  show "keys_then_count [''Training'', ''Know_Whom''] (training_reporting_df (tables an))"
    by (rule grouped5_shape) (use g(3) in simp)
  show "keys_then_count [''Gender'', ''Awareness''] (gender_awareness_df (tables an))"
    by (rule grouped5_shape) (use g(4) in simp)
qed

text \<open>C6 on the example survey.\<close>

theorem summary_column_order_witness:
  "\<not> isl (aggregate_sql ''Know_Whom_To_Report'' (example_db(''survey'' \<mapsto> example_survey))) \<and>
   \<not> isl (analysis5 example_survey) \<and>
   keys_then_count [''Awareness'', ''Know_Whom_To_Report'']
     (awareness_reporting_df (projr (aggregate_sql ''Know_Whom_To_Report''
        (example_db(''survey'' \<mapsto> example_survey))))) \<and>
   keys_then_count [''Gender'', ''Awareness'']
     (gender_awareness_df (tables (projr (analysis5 example_survey))))"
proof -
  let ?conn = "example_db(''survey'' \<mapsto> example_survey)"
  let ?s = "projr (aggregate_sql ''Know_Whom_To_Report'' ?conn)"
  let ?an = "projr (analysis5 example_survey)"
  have a: "aggregate_sql ''Know_Whom_To_Report'' ?conn = Inr ?s"
    using example_aggregate_sql by simp
  have b: "analysis5 example_survey = Inr ?an"
    using example_analysis5 by simp
  from summary_column_order [of "''Know_Whom_To_Report''" ?conn ?s example_survey ?an] a b
    example_aggregate_sql example_analysis5
  show ?thesis by simp
qed

section \<open>Re-running the scripts\<close>

lemma read_sql_query_cong:
  assumes "c1 t = c2 t"
  shows "read_sql_query c1 t sel = read_sql_query c2 t sel"
  using assms by (simp add: read_sql_query_def)

lemma aggregate_sql_cong:
  assumes "c1 ''survey'' = c2 ''survey''"
  shows "aggregate_sql k c1 = aggregate_sql k c2"
proof -
  have h: "read_sql_query c1 ''survey'' sel = read_sql_query c2 ''survey'' sel" for sel
    using assms by (rule read_sql_query_cong)
  show ?thesis unfolding aggregate_sql_def h ..
qed

lemma to_sql_fails_same:
  "to_sql df name c1 = Inl e \<Longrightarrow> to_sql df name c2 = Inl e"
  by (auto simp: to_sql_eq split: if_splits)

lemma to_sql_succeeds_same:
  "to_sql df name c1 = Inr c \<Longrightarrow> to_sql df name c2 = Inr (c2(name \<mapsto> df))"
  by (auto simp: to_sql_eq split: if_splits)

lemma summary_tables_sql_cong:
  "summary_tables_sql fmt r w1 = summary_tables_sql fmt r w2"
proof (cases "load_data r")
  case (Inl e)
  then show ?thesis by (simp add: summary_tables_sql_def run_sql_def)
next
  case (Inr df)
  show ?thesis
  proof (cases "to_sql df ''survey'' (db w1)")
    case (Inl e)
    from to_sql_fails_same [OF this] have "to_sql df ''survey'' (db w2) = Inl e" .
    with Inl Inr show ?thesis by (simp add: summary_tables_sql_def run_sql_def)
  next
    case c1: (Inr conn1)
    let ?conn2 = "(db w2)(''survey'' \<mapsto> df)"
    from c1 have v: "to_sql df ''survey'' (db w2) = Inr ?conn2"
      by (rule to_sql_succeeds_same)
    from c1 have c1': "conn1 = (db w1)(''survey'' \<mapsto> df)" by (rule to_sql_Inr)
    have a: "aggregate_sql ''Know_Whom_To_Report'' conn1 =
             aggregate_sql ''Know_Whom_To_Report'' ?conn2"
      by (rule aggregate_sql_cong) (simp add: c1')
    show ?thesis
    proof (cases "aggregate_sql ''Know_Whom_To_Report'' ?conn2")
      case (Inl e)
      with Inr c1 v a show ?thesis by (simp add: summary_tables_sql_def run_sql_def)
    next
      case s: (Inr s)
      show ?thesis
      proof (cases "awareness_pct fmt (awareness_df s)")
        case (Inl e)
        with Inr c1 v a s show ?thesis by (simp add: summary_tables_sql_def run_sql_def)
      next
        case p: (Inr pct)
        with Inr c1 v a s show ?thesis by (simp add: summary_tables_sql_def run_sql_def)
      qed
    qed
  qed
qed

lemma summary_tables5_cong:
  "summary_tables5 fmt write r w1 = summary_tables5 fmt write r w2"
proof (cases "load_data5 r")
  case (Inl e)
  then show ?thesis by (simp add: summary_tables5_def run5_def)
next
  case (Inr df)
  have e: "embed_dataset write df fs = Inr (fs(EMBED_XLSX \<mapsto> write df), b64encode (write df))" for fs
    by (simp add: embed_dataset_def to_excel_def read_bytes_def)
  show ?thesis
  proof (cases "to_sql df ''survey'' (db w1)")
    case (Inl e')
    from to_sql_fails_same [OF this] have "to_sql df ''survey'' (db w2) = Inl e'" .
    with Inl Inr e show ?thesis by (simp add: summary_tables5_def run5_def)
  next
    case c1: (Inr conn1)
    from c1 have v: "to_sql df ''survey'' (db w2) = Inr ((db w2)(''survey'' \<mapsto> df))"
      by (rule to_sql_succeeds_same)
    show ?thesis
    proof (cases "analysis5 df")
      case (Inl e')
      with Inr c1 v e show ?thesis by (simp add: summary_tables5_def run5_def)
    next
      case an: (Inr an)
      show ?thesis
      proof (cases "summary5 fmt df (awareness_df (tables an))")
        case (Inl e')
        with Inr c1 v e an show ?thesis by (simp add: summary_tables5_def run5_def)
      next
        case s: (Inr s)
        with Inr c1 v e an show ?thesis by (simp add: summary_tables5_def run5_def)
      qed
    qed
  qed
qed

text \<open>
  C5. The summary tables of a run depend on the table that was read and on nothing else:
  two runs that read the same input give the same summary tables (or end with the same
  error), whatever the database and the files held before each run, in the SQL variant and
  in the pandas variant.
\<close>

theorem summary_tables_deterministic:
  "summary_tables_sql fmt read_excel w1 = summary_tables_sql fmt read_excel w2 \<and>
   summary_tables5 fmt write read_excel w1 = summary_tables5 fmt write read_excel w2"
  using summary_tables_sql_cong summary_tables5_cong by blast

section \<open>Properties of the awareness percentage\<close>






lemma yes_count_rows:
  assumes "columns a = [''Awareness'', ''Count'']"
  shows "yes_count a =
     (case filter (\<lambda>r. cell_at r 0 = Text ''Yes'') (rows a) of
        [] \<Rightarrow> Inl IndexError
      | r # _ \<Rightarrow> (case cell_at r 1 of Number n \<Rightarrow> Inr n | _ \<Rightarrow> Inl TypeError))"
  using assms
  by (simp add: yes_count_def select_eq_def get_column_def values0_def
      split: list.splits cell.splits)

lemma series_sum_all_numbers:
  "list_all is_number cs \<Longrightarrow> \<exists>tot. series_sum cs = Inr tot"
  by (induction cs rule: series_sum.induct) (auto simp: is_number_def)

lemma summary_row_last:
  assumes "length r = 2"
  shows "cell_at r (Suc 0) = last r"
proof -
  from assms obtain x y where "r = [x, y]" by (rule length2E)
  then show ?thesis by (simp add: cell_at_def)
qed

lemma awareness_total_exists:
  assumes "keys_then_count [''Awareness''] a"
  shows "\<exists>cnt tot. get_column a ''Count'' = Inr cnt \<and> series_sum cnt = Inr tot"
proof -
  from assms have c: "columns a = [''Awareness'', ''Count'']"
    and r: "\<forall>r\<in>set (rows a). length r = 2 \<and> is_number (last r)"
    by (simp_all add: keys_then_count_def list_all_iff)
  have g: "get_column a ''Count'' = Inr (map (\<lambda>r. cell_at r 1) (rows a))"
    by (simp add: get_column_def c)
  have "list_all is_number (map (\<lambda>r. cell_at r 1) (rows a))"
    using r by (simp add: list_all_iff summary_row_last)
  from series_sum_all_numbers [OF this] g show ?thesis by blast
qed

lemma yes_count_none:
  assumes "columns a = [''Awareness'', ''Count'']"
    and "\<not> list_ex (\<lambda>r. cell_at r 0 = Text ''Yes'') (rows a)"
  shows "yes_count a = Inl IndexError"
proof -
  from assms(2) have "filter (\<lambda>r. cell_at r 0 = Text ''Yes'') (rows a) = []"
    by (simp add: list_ex_iff filter_empty_conv)
  then show ?thesis by (simp add: yes_count_rows [OF assms(1)])
qed

lemma yes_count_some:
  assumes "keys_then_count [''Awareness''] a"
    and "list_ex (\<lambda>r. cell_at r 0 = Text ''Yes'') (rows a)"
  shows "\<exists>n. yes_count a = Inr n"
proof -
  from assms(1) have c: "columns a = [''Awareness'', ''Count'']"
    and r: "\<forall>r\<in>set (rows a). length r = 2 \<and> is_number (last r)"
    by (simp_all add: keys_then_count_def list_all_iff)
  from assms(2) obtain x xs where f: "filter (\<lambda>r. cell_at r 0 = Text ''Yes'') (rows a) = x # xs"
    by (cases "filter (\<lambda>r. cell_at r 0 = Text ''Yes'') (rows a)")
       (auto simp: list_ex_iff filter_empty_conv)
  then have "x \<in> set (rows a)" by (metis filter_is_subset list.set_intros(1) subsetD)
  with r have "length x = 2" and "is_number (last x)" by auto
  then obtain n where "cell_at x 1 = Number n"
    by (auto simp: summary_row_last is_number_def split: cell.splits)
  with f show ?thesis by (simp add: yes_count_rows [OF c])
qed

text \<open>
  C10. On a summary table of awareness (the columns \<open>Awareness\<close> and \<open>Count\<close>, a number
  in every \<open>Count\<close> cell) with no row whose \<open>Awareness\<close> is exactly the text \<open>Yes\<close>,
  the selection of the count raises \<open>IndexError\<close>, and so do the percentage of the SQL
  variants and the summary of the pandas variant: no 0 percent is reported. With such a row
  the selection returns its count.
\<close>

theorem no_yes_row_index_error:
  "keys_then_count [''Awareness''] a \<Longrightarrow>
     (if list_ex (\<lambda>r. cell_at r 0 = Text ''Yes'') (rows a)
      then \<exists>n. yes_count a = Inr n
      else yes_count a = Inl IndexError \<and> yes_pct a = Inl IndexError \<and>
           awareness_pct fmt a = Inl IndexError \<and> summary5 fmt df a = Inl IndexError)"
proof -
  assume k: "keys_then_count [''Awareness''] a"
  then have c: "columns a = [''Awareness'', ''Count'']" by (simp add: keys_then_count_def)
  show ?thesis
  proof (cases "list_ex (\<lambda>r. cell_at r 0 = Text ''Yes'') (rows a)")
    case True
    with yes_count_some [OF k] show ?thesis by simp
  next
    case False
    have y: "yes_count a = Inl IndexError" by (rule yes_count_none [OF c False])
    from awareness_total_exists [OF k] obtain cnt tot
      where "get_column a ''Count'' = Inr cnt" and "series_sum cnt = Inr tot" by blast
    with y have p: "yes_pct a = Inl IndexError" by (simp add: yes_pct_def)
    from y p False show ?thesis by (simp add: awareness_pct_def summary5_def)
  qed
qed

text \<open>C10 on a table with the answers \<open>No\<close> and \<open>yes\<close>.\<close>

theorem no_yes_row_index_error_witness:
  "keys_then_count [''Awareness''] no_yes_table \<and>
   \<not> list_ex (\<lambda>r. cell_at r 0 = Text ''Yes'') (rows no_yes_table) \<and>
   yes_count no_yes_table = Inl IndexError \<and>
   yes_pct no_yes_table = Inl IndexError \<and>
   awareness_pct format_1f no_yes_table = Inl IndexError \<and>
   summary5 format_1f example_survey no_yes_table = Inl IndexError"
  using no_yes_row_index_error [of no_yes_table format_1f example_survey]
  by (simp add: keys_then_count_def no_yes_table_def is_number_def cell_at_def)








section \<open>Properties of the association test\<close>

lemma sum_list_map_pos:
  fixes f :: "'a \<Rightarrow> nat"
  assumes "x \<in> set xs" and "0 < f x"
  shows "sum_list (map f xs) \<noteq> 0"
  using assms by auto

lemma chi2_contingency_matrix:
  fixes f :: "'a \<Rightarrow> 'b \<Rightarrow> nat"
  assumes idx: "idx \<noteq> []" and cls: "cls \<noteq> []"
    and rows_pos: "\<forall>i\<in>set idx. \<exists>j\<in>set cls. 0 < f i j"
    and cols_pos: "\<forall>j\<in>set cls. \<exists>i\<in>set idx. 0 < f i j"
  shows "\<exists>res. chi2_contingency (map (\<lambda>i. map (f i) cls) idx) = Inr res"
proof -
  let ?obs = "map (\<lambda>i. map (f i) cls) idx"
  from idx obtain i0 rest where i0: "idx = i0 # rest" by (cases idx) auto
  have r0: "\<not> list_ex (\<lambda>r. sum_list r = 0) ?obs"
  proof
    assume "list_ex (\<lambda>r. sum_list r = 0) ?obs"
    then obtain i where i: "i \<in> set idx" and z: "sum_list (map (f i) cls) = 0"
      by (auto simp: list_ex_iff)
    from rows_pos i obtain j where "j \<in> set cls" and "0 < f i j" by blast
    then have "sum_list (map (f i) cls) \<noteq> 0" by (rule sum_list_map_pos)
    with z show False by simp
  qed
  have c0: "\<not> list_ex (\<lambda>j. sum_list (map (\<lambda>r. r ! j) ?obs) = 0) [0..<length cls]"
  proof
    assume "list_ex (\<lambda>j. sum_list (map (\<lambda>r. r ! j) ?obs) = 0) [0..<length cls]"
    then obtain j where j: "j < length cls" and z: "sum_list (map (\<lambda>r. r ! j) ?obs) = 0"
      by (auto simp: list_ex_iff)
    have e: "map (\<lambda>r. r ! j) ?obs = map (\<lambda>i. f i (cls ! j)) idx"
      using j by (simp add: comp_def)
    from j have "cls ! j \<in> set cls" by (rule nth_mem)
    with cols_pos obtain i where "i \<in> set idx" and "0 < f i (cls ! j)" by blast
    then have "sum_list (map (\<lambda>i. f i (cls ! j)) idx) \<noteq> 0" by (rule sum_list_map_pos)
    with z e show False by simp
  qed
  have h: "?obs = map (f i0) cls # map (\<lambda>i. map (f i) cls) rest" by (simp add: i0)
  have "chi2_contingency ?obs =
      (let dof = (length ?obs - 1) * (length (map (f i0) cls) - 1)
       in if dof = 0 then Inr Degenerate else Inr (Pearson ?obs dof))"
    unfolding chi2_contingency_def
    using r0 c0 cls by (subst h) simp
  then show ?thesis by (auto simp: Let_def)
qed

lemma crosstab_empty_iff:
  "empty (crosstab a b) = (\<not> list_ex (\<lambda>p. fst p \<noteq> Null \<and> snd p \<noteq> Null) (zip a b))"
proof -
  define ps where "ps = filter (\<lambda>p. fst p \<noteq> Null \<and> snd p \<noteq> Null) (zip a b)"
  have i: "sort_key cell_rank (remdups (map fst ps)) = [] \<longleftrightarrow> ps = []"
    by (metis map_is_Nil_conv remdups_eq_nil_iff set_empty set_sort)
  have c: "sort_key cell_rank (remdups (map snd ps)) = [] \<longleftrightarrow> ps = []"
    by (metis map_is_Nil_conv remdups_eq_nil_iff set_empty set_sort)
  have "empty (crosstab a b) \<longleftrightarrow> ps = []"
    unfolding empty_def crosstab_def Let_def ps_def [symmetric] using i c by simp
  also have "\<dots> \<longleftrightarrow> \<not> list_ex (\<lambda>p. fst p \<noteq> Null \<and> snd p \<noteq> Null) (zip a b)"
    unfolding ps_def by (simp add: list_ex_iff filter_empty_conv)
  finally show ?thesis .
qed

lemma chi2_contingency_crosstab:
  assumes "\<not> empty (crosstab a b)"
  shows "\<exists>res. chi2_contingency (counts (crosstab a b)) = Inr res"
proof -
  define ps where "ps = filter (\<lambda>p. fst p \<noteq> Null \<and> snd p \<noteq> Null) (zip a b)"
  define idx where "idx = sort_key cell_rank (remdups (map fst ps))"
  define cls where "cls = sort_key cell_rank (remdups (map snd ps))"
  have ct: "crosstab a b = \<lparr>index_labels = idx, column_labels = cls,
      counts = map (\<lambda>i. map (\<lambda>j. count_list ps (i, j)) cls) idx\<rparr>"
    unfolding crosstab_def Let_def ps_def [symmetric] idx_def [symmetric] cls_def [symmetric] ..
  from assms have ne: "idx \<noteq> []" "cls \<noteq> []" by (simp_all add: ct empty_def)
  have si: "set idx = fst ` set ps" and sc: "set cls = snd ` set ps"
    by (simp_all add: idx_def cls_def)
  have rp: "\<forall>i\<in>set idx. \<exists>j\<in>set cls. 0 < count_list ps (i, j)"
  proof
    fix i assume "i \<in> set idx"
    then obtain j where p: "(i, j) \<in> set ps" unfolding si by auto
    then have "j \<in> set cls" unfolding sc by force
    moreover from p have "0 < count_list ps (i, j)" by (metis count_list_0_iff gr0I)
    ultimately show "\<exists>j\<in>set cls. 0 < count_list ps (i, j)" ..
  qed
  have cp: "\<forall>j\<in>set cls. \<exists>i\<in>set idx. 0 < count_list ps (i, j)"
  proof
    fix j assume "j \<in> set cls"
    then obtain i where p: "(i, j) \<in> set ps" unfolding sc by auto
    then have "i \<in> set idx" unfolding si by force
    moreover from p have "0 < count_list ps (i, j)" by (metis count_list_0_iff gr0I)
    ultimately show "\<exists>i\<in>set idx. 0 < count_list ps (i, j)" ..
  qed
  from chi2_contingency_matrix [OF ne rp cp] show ?thesis by (simp add: ct)
qed

text \<open>
  C3, as amended. For two columns of the table, the test returns the sentence without a
  number and no statistic exactly when the contingency table is empty, that is when no row
  holds a value in both columns. In every other case, also when the table has fewer than
  two rows or two columns, the chi-square routine is called, does not fail on the table,
  and the test returns the sentence with the statistic and the p-value.
\<close>

theorem chi_square_test_no_data:
  "get_column df col1 = Inr a \<Longrightarrow> get_column df col2 = Inr b \<Longrightarrow>
     (if list_ex (\<lambda>p. fst p \<noteq> Null \<and> snd p \<noteq> Null) (zip a b)
      then \<exists>res. chi_square_test df col1 col2 = Inr (Chi_square col1 col2 res, Some res)
      else chi_square_test df col1 col2 = Inr (No_data_available col1 col2, None))"
proof -
  assume a: "get_column df col1 = Inr a" and b: "get_column df col2 = Inr b"
  show ?thesis
  proof (cases "empty (crosstab a b)")
    case True
    then have "chi_square_test df col1 col2 = Inr (No_data_available col1 col2, None)"
      using a b by (simp add: chi_square_test_def Let_def)
    with True show ?thesis by (simp add: crosstab_empty_iff)
  next
    case False
    from chi2_contingency_crosstab [OF False] obtain res
      where "chi2_contingency (counts (crosstab a b)) = Inr res" ..
    with False have "chi_square_test df col1 col2 = Inr (Chi_square col1 col2 res, Some res)"
      using a b by (simp add: chi_square_test_def Let_def)
    with False show ?thesis by (auto simp: crosstab_empty_iff)
  qed
qed

lemma chi_examples:
  "get_column no_pairs_survey AWARE = Inr [Text ''Yes'', Null]"
  "get_column no_pairs_survey KNOW = Inr [Null, Text ''No'']"
  "chi_square_test all_aware_survey AWARE KNOW = Inr (Chi_square AWARE KNOW Degenerate, Some Degenerate)"
  "index_labels (crosstab [Text ''Yes'', Text ''Yes'', Text ''Yes''] [Text ''Yes'', Text ''No'', Text ''No'']) = [Text ''Yes'']"
  "column_labels (crosstab [Text ''Yes'', Text ''Yes'', Text ''Yes''] [Text ''Yes'', Text ''No'', Text ''No'']) = [Text ''No'', Text ''Yes'']"
  "counts (crosstab [Text ''Yes'', Text ''Yes'', Text ''Yes''] [Text ''Yes'', Text ''No'', Text ''No'']) = [[2, 1]]"
  "get_column all_aware_survey AWARE = Inr [Text ''Yes'', Text ''Yes'', Text ''Yes'']"
  "get_column all_aware_survey KNOW = Inr [Text ''Yes'', Text ''No'', Text ''No'']"
  by code_simp+

text \<open>C3, as amended, on a table in which no respondent answered both questions.\<close>

theorem chi_square_test_no_data_witness:
  "get_column no_pairs_survey AWARE = Inr [Text ''Yes'', Null] \<and>
   get_column no_pairs_survey KNOW = Inr [Null, Text ''No''] \<and>
   chi_square_test no_pairs_survey AWARE KNOW = Inr (No_data_available AWARE KNOW, None)"
  using chi_square_test_no_data [of no_pairs_survey AWARE "[Text ''Yes'', Null]" KNOW "[Null, Text ''No'']"]
    chi_examples(1,2)
  by simp

text \<open>
  The claim as stated fails on a table in which every respondent is aware: the awareness
  column has one distinct value, the contingency table has one row and two columns, it is
  not empty, and the test returns the statistic of the degenerate case, not the sentence
  without a number.
\<close>

theorem chi_square_test_one_group:
  "get_column all_aware_survey AWARE = Inr [Text ''Yes'', Text ''Yes'', Text ''Yes''] \<and>
   get_column all_aware_survey KNOW = Inr [Text ''Yes'', Text ''No'', Text ''No''] \<and>
   index_labels (crosstab [Text ''Yes'', Text ''Yes'', Text ''Yes'']
                          [Text ''Yes'', Text ''No'', Text ''No'']) = [Text ''Yes''] \<and>
   counts (crosstab [Text ''Yes'', Text ''Yes'', Text ''Yes'']
                    [Text ''Yes'', Text ''No'', Text ''No'']) = [[2, 1]] \<and>
   chi_square_test all_aware_survey AWARE KNOW =
     Inr (Chi_square AWARE KNOW Degenerate, Some Degenerate) \<and>
   chi_square_test all_aware_survey AWARE KNOW \<noteq> Inr (No_data_available AWARE KNOW, None)"
  using chi_examples by simp

end
